theory Spec2Isabelle
  imports Main "HOL-Library.Sublist"
begin

section \<open>The web-login command of the Salesforce extension\<close>

text \<open>
  A shallow embedding of \<^verbatim>\<open>commands/forceAuthWebLogin.ts\<close>: the two command
  builders, the parameter gatherer with its URL validation, the demo-mode executor
  and the commandlet that \<^verbatim>\<open>forceAuthWebLogin\<close> composes.

  Strings are \<open>string\<close>. The message lookup \<^verbatim>\<open>nls.localize\<close> is a
  collaborator of the file, not part of it: every definition that calls it takes the
  lookup as its first argument, so each result holds for every message catalogue.
\<close>

type_synonym nls = "string \<Rightarrow> string"

subsection \<open>Constants and the parameter bundle\<close>

definition DEFAULT_ALIAS :: string where
  "DEFAULT_ALIAS = ''vscodeOrg''"

definition PRODUCTION_URL :: string where
  "PRODUCTION_URL = ''https://login.salesforce.com''"

definition SANDBOX_URL :: string where
  "SANDBOX_URL = ''https://test.salesforce.com''"

text \<open>The field \<^verbatim>\<open>alias\<close> is written \<open>alias'\<close>: the plain name is reserved.\<close>

record AuthParams =
  alias' :: string
  loginUrl :: string

subsection \<open>The command builder\<close>

text \<open>
  Modelled from the spec: \<^verbatim>\<open>Command\<close> and \<^verbatim>\<open>SfdxCommandBuilder\<close> come
  from the utilities package and are not among the sources. The spec describes a builder
  that maps a parameter bundle to a literal argument list plus metadata (description, log
  name); the tests of the two builders pin down the rendering: the command is
  \<^verbatim>\<open>sfdx\<close>, \<^verbatim>\<open>toCommand\<close> joins command and arguments with single spaces,
  and the JSON flag renders as \<^verbatim>\<open>--json --loglevel fatal\<close>. The model is the
  record \<open>Command\<close> and the definitions from \<open>SfdxCommandBuilder\<close> to
  \<open>toCommand\<close>: the builder is a record that each \<^verbatim>\<open>with...\<close> call returns
  updated, and \<open>build\<close> hands it over as the command.
\<close>

record Command =
  command :: string
  description :: "string option"
  args :: "string list"
  logName :: "string option"

definition SfdxCommandBuilder :: Command where
  "SfdxCommandBuilder =
     \<lparr>command = ''sfdx'', description = None, args = [], logName = None\<rparr>"

definition withDescription :: "string \<Rightarrow> Command \<Rightarrow> Command" where
  "withDescription d b = b\<lparr>description := Some d\<rparr>"

definition withArg :: "string \<Rightarrow> Command \<Rightarrow> Command" where
  "withArg a b = b\<lparr>args := args b @ [a]\<rparr>"

definition withFlag :: "string \<Rightarrow> string \<Rightarrow> Command \<Rightarrow> Command" where
  "withFlag name v b = b\<lparr>args := args b @ [name, v]\<rparr>"

definition withJson :: "Command \<Rightarrow> Command" where
  "withJson b = b\<lparr>args := args b @ [''--json'', ''--loglevel'', ''fatal'']\<rparr>"

definition withLogName :: "string \<Rightarrow> Command \<Rightarrow> Command" where
  "withLogName n b = b\<lparr>logName := Some n\<rparr>"

definition build :: "Command \<Rightarrow> Command" where
  "build b = b"

fun join :: "string \<Rightarrow> string list \<Rightarrow> string" where
  "join sep [] = []"
| "join sep [x] = x"
| "join sep (x # y # ys) = x @ sep @ join sep (y # ys)"

definition toCommand :: "Command \<Rightarrow> string" where
  "toCommand c = command c @ '' '' @ join '' '' (args c)"

text \<open>
  The two builders of the file. A chain \<^verbatim>\<open>new SfdxCommandBuilder().withA(..).withB(..)\<close>
  applies the calls from left to right, so the first call is the innermost application.
\<close>

definition ForceAuthWebLoginExecutor_build :: "nls \<Rightarrow> AuthParams \<Rightarrow> Command" where
  "ForceAuthWebLoginExecutor_build localize data =
     build
      (withLogName ''force_auth_web_login''
      (withArg ''--setdefaultusername''
      (withFlag ''--instanceurl'' (loginUrl data)
      (withFlag ''--setalias'' (alias' data)
      (withArg ''force:auth:web:login''
      (withDescription (localize ''force_auth_web_login_authorize_org_text'')
       SfdxCommandBuilder))))))"

definition ForceAuthWebLoginDemoModeExecutor_build :: "nls \<Rightarrow> AuthParams \<Rightarrow> Command" where
  "ForceAuthWebLoginDemoModeExecutor_build localize data =
     build
      (withLogName ''force_auth_web_login_demo_mode''
      (withJson
      (withArg ''--noprompt''
      (withArg ''--setdefaultusername''
      (withFlag ''--instanceurl'' (loginUrl data)
      (withFlag ''--setalias'' (alias' data)
      (withArg ''force:auth:web:login''
      (withDescription (localize ''force_auth_web_login_authorize_org_text'')
       SfdxCommandBuilder))))))))"

subsection \<open>Regular expressions and \<^verbatim>\<open>RegExp.prototype.test\<close>\<close>

text \<open>
  \<^verbatim>\<open>validateUrl\<close> tests its argument against \<^verbatim>\<open>/https?:\/\/(.*)/\<close>. The
  expression uses literal characters, \<^verbatim>\<open>?\<close>, a capture group, \<^verbatim>\<open>.\<close> and
  \<^verbatim>\<open>*\<close>; the result of \<^verbatim>\<open>test\<close> does not depend on what a group captures, so
  a group is its body. \<^verbatim>\<open>.\<close> matches every character but a line terminator.
  (Of the four line terminators of the language, U+2028 and U+2029 are not single
  characters of \<open>char\<close>; the two that are, are excluded here.)

  \<open>deriv\<close> is the expression left after reading one character; \<open>match_at\<close> says
  whether the expression matches some prefix of the text, which is one attempt of the
  matcher at a fixed start index; \<open>test\<close> tries every start index from the left, as
  an expression without the sticky flag does.
\<close>

datatype regex =
    Never
  | Empty
  | Lit char
  | Dot
  | Alt regex regex
  | Seq regex regex
  | Star regex

definition Opt :: "regex \<Rightarrow> regex" where
  "Opt r = Alt r Empty"

fun Str :: "string \<Rightarrow> regex" where
  "Str [] = Empty"
| "Str (c # cs) = Seq (Lit c) (Str cs)"

definition is_line_terminator :: "char \<Rightarrow> bool" where
  "is_line_terminator c = (c = CHR 0x0A \<or> c = CHR 0x0D)"

fun nullable :: "regex \<Rightarrow> bool" where
  "nullable Never = False"
| "nullable Empty = True"
| "nullable (Lit c) = False"
| "nullable Dot = False"
| "nullable (Alt r s) = (nullable r \<or> nullable s)"
| "nullable (Seq r s) = (nullable r \<and> nullable s)"
| "nullable (Star r) = True"

fun deriv :: "char \<Rightarrow> regex \<Rightarrow> regex" where
  "deriv c Never = Never"
| "deriv c Empty = Never"
| "deriv c (Lit d) = (if c = d then Empty else Never)"
| "deriv c Dot = (if is_line_terminator c then Never else Empty)"
| "deriv c (Alt r s) = Alt (deriv c r) (deriv c s)"
| "deriv c (Seq r s) =
     (if nullable r then Alt (Seq (deriv c r) s) (deriv c s) else Seq (deriv c r) s)"
| "deriv c (Star r) = Seq (deriv c r) (Star r)"

fun match_at :: "regex \<Rightarrow> string \<Rightarrow> bool" where
  "match_at r [] = nullable r"
| "match_at r (c # cs) = (nullable r \<or> match_at (deriv c r) cs)"

fun test :: "regex \<Rightarrow> string \<Rightarrow> bool" where
  "test r [] = match_at r []"
| "test r (c # cs) = (match_at r (c # cs) \<or> test r cs)"

text \<open>The expression of \<^verbatim>\<open>validateUrl\<close>: \<^verbatim>\<open>/https?:\/\/(.*)/\<close>.\<close>

definition expr :: regex where
  "expr = Seq (Str ''http'') (Seq (Opt (Lit CHR ''s'')) (Seq (Str ''://'') (Star Dot)))"

definition validateUrl :: "nls \<Rightarrow> string \<Rightarrow> string option" where
  "validateUrl localize url =
     (if test expr url then None else Some (localize ''auth_invalid_url''))"

text \<open>
  The words an expression denotes, to state what \<open>test\<close> decides independently of
  how it computes.
\<close>

inductive_set star :: "string set \<Rightarrow> string set" for A :: "string set" where
  star_nil: "[] \<in> star A"
| star_step: "u \<in> A \<Longrightarrow> v \<in> star A \<Longrightarrow> u @ v \<in> star A"

fun lang :: "regex \<Rightarrow> string set" where
  "lang Never = {}"
| "lang Empty = {[]}"
| "lang (Lit c) = {[c]}"
| "lang Dot = {[c] | c. \<not> is_line_terminator c}"
| "lang (Alt r s) = lang r \<union> lang s"
| "lang (Seq r s) = {u @ v | u v. u \<in> lang r \<and> v \<in> lang s}"
| "lang (Star r) = star (lang r)"

text \<open>\<open>contains s pat\<close>: the text \<open>s\<close> has \<open>pat\<close> somewhere inside it.\<close>

definition contains :: "string \<Rightarrow> string \<Rightarrow> bool" where
  "contains s pat = sublist pat s"


subsection \<open>Errors and responses\<close>

text \<open>
  A thrown error or a rejected promise is a value: \<open>Inl\<close> of the error. The
  constructors are the kinds of error the file can meet, each with its message.
\<close>

datatype js_error = SyntaxError string | TypeError string | Error string

text \<open>\<^verbatim>\<open>CancelResponse | ContinueResponse<T>\<close>, told apart by their \<^verbatim>\<open>type\<close> field.\<close>

datatype 'p response = CANCEL | CONTINUE 'p

subsection \<open>The workspace and the project's login URL\<close>

text \<open>
  What \<^verbatim>\<open>JSON.parse\<close> returns is any JSON value, and nothing in the file checks
  which: the values are a datatype. A number is kept as the text the language prints for
  it (\<^verbatim>\<open>123\<close>, \<^verbatim>\<open>1.5\<close>, \<^verbatim>\<open>1e+21\<close>; both zeros print \<^verbatim>\<open>0\<close>); the file only
  tests a number for truth and prints it. An object is the list of its own properties.
\<close>

datatype json =
    JNull
  | JBool bool
  | JNumber string
  | JString string
  | JArray "json list"
  | JObject "(string \<times> json) list"

text \<open>
  Truthiness: \<^verbatim>\<open>null\<close>, \<^verbatim>\<open>false\<close>, zero and the empty string are falsy, every
  array and object is truthy.
\<close>

fun truthy :: "json \<Rightarrow> bool" where
  "truthy JNull = False"
| "truthy (JBool b) = b"
| "truthy (JNumber n) = (n \<noteq> ''0'' \<and> n \<noteq> ''NaN'')"
| "truthy (JString s) = (s \<noteq> [])"
| "truthy (JArray xs) = True"
| "truthy (JObject kvs) = True"

text \<open>
  The text a value becomes inside a template literal: a string is itself, an array is
  its elements joined by commas, with \<^verbatim>\<open>null\<close> elements empty, and an object is
  \<^verbatim>\<open>[object Object]\<close>.
\<close>

fun ToString :: "json \<Rightarrow> string" and ToString_elements :: "json list \<Rightarrow> string list" where
  "ToString JNull = ''null''"
| "ToString (JBool b) = (if b then ''true'' else ''false'')"
| "ToString (JNumber n) = n"
| "ToString (JString s) = s"
| "ToString (JArray xs) = join '','' (ToString_elements xs)"
| "ToString (JObject kvs) = ''[object Object]''"
| "ToString_elements [] = []"
| "ToString_elements (JNull # xs) = [] # ToString_elements xs"
| "ToString_elements (x # xs) = ToString x # ToString_elements xs"

text \<open>
  \<open>or_else x d\<close> is \<^verbatim>\<open>x || d\<close> for a value that may be \<^verbatim>\<open>undefined\<close>,
  \<open>or_string\<close> the same for a string.
\<close>

fun or_else :: "json option \<Rightarrow> json \<Rightarrow> json" where
  "or_else None d = d"
| "or_else (Some v) d = (if truthy v then v else d)"

definition or_string :: "string \<Rightarrow> string \<Rightarrow> string" where
  "or_string s d = (if s = [] then d else s)"

text \<open>
  \<^verbatim>\<open>getProjectUrl\<close> reads the workspace root, the file system and the JSON parser.
  They are the fields of a record the function takes: \<open>rootPath\<close> is
  \<^verbatim>\<open>workspace.rootPath\<close>, \<open>path_join\<close> is \<^verbatim>\<open>path.join\<close>,
  \<open>SFDX_PROJECT_FILE\<close> the constant of that name (its module is not among the sources),
  \<open>existsSync\<close> and \<open>readFileSync\<close> those of \<^verbatim>\<open>fs\<close>, and
  \<open>JSON_parse\<close> is \<^verbatim>\<open>JSON.parse\<close>. Reading and parsing can throw.

  \<open>sfdcLoginUrl\<close> is the property read \<^verbatim>\<open>sfdxProjectConfig.sfdcLoginUrl\<close>: it
  throws on \<^verbatim>\<open>null\<close>, gives the property of an object, and \<^verbatim>\<open>undefined\<close> when
  the object has none or the value is not an object. The variable it is assigned to is
  declared \<^verbatim>\<open>string | undefined\<close>, but holds whatever the file gave.
\<close>

record workspace =
  rootPath :: "string option"
  path_join :: "string \<Rightarrow> string \<Rightarrow> string"
  SFDX_PROJECT_FILE :: string
  existsSync :: "string \<Rightarrow> bool"
  readFileSync :: "string \<Rightarrow> js_error + string"
  JSON_parse :: "string \<Rightarrow> js_error + json"

fun sfdcLoginUrl :: "json \<Rightarrow> js_error + json option" where
  "sfdcLoginUrl JNull = Inl (TypeError ''Cannot read property sfdcLoginUrl of null'')"
| "sfdcLoginUrl (JObject kvs) = Inr (map_of kvs ''sfdcLoginUrl'')"
| "sfdcLoginUrl v = Inr None"

definition getProjectUrl :: "workspace \<Rightarrow> js_error + json option" where
  "getProjectUrl w =
     (case rootPath w of
        None \<Rightarrow> Inr None
      | Some root \<Rightarrow>
          if root = [] then Inr None
          else
            let sfdxProjectJsonFile = path_join w root (SFDX_PROJECT_FILE w) in
            if existsSync w sfdxProjectJsonFile then
              (case readFileSync w sfdxProjectJsonFile of
                 Inl e \<Rightarrow> Inl e
               | Inr text \<Rightarrow>
                   (case JSON_parse w text of
                      Inl e \<Rightarrow> Inl e
                    | Inr sfdxProjectConfig \<Rightarrow> sfdcLoginUrl sfdxProjectConfig))
            else Inr None)"

subsection \<open>The parameter gatherer\<close>

text \<open>
  A quick-pick item has a label and, when given, a detail. An \<^verbatim>\<open>OrgTypeItem\<close> is a
  quick-pick item whose two fields are looked up in the message catalogue.
\<close>

record QuickPickItem =
  label :: string
  detail :: "string option"

definition OrgTypeItem :: "nls \<Rightarrow> string \<Rightarrow> string \<Rightarrow> QuickPickItem" where
  "OrgTypeItem localize localizeLabel localizeDetail =
     \<lparr>label = localize localizeLabel, detail = Some (localize localizeDetail)\<rparr>"

record OrgTypes =
  project :: QuickPickItem
  production :: QuickPickItem
  sandbox :: QuickPickItem
  custom :: QuickPickItem

text \<open>The gatherer object: its only field is \<^verbatim>\<open>orgTypes\<close>.\<close>

record AuthParamsGatherer =
  orgTypes :: OrgTypes

definition new_AuthParamsGatherer :: "nls \<Rightarrow> AuthParamsGatherer" where
  "new_AuthParamsGatherer localize =
     \<lparr>orgTypes =
        \<lparr>project = OrgTypeItem localize ''auth_project_label'' ''auth_project_detail'',
         production = OrgTypeItem localize ''auth_prod_label'' ''auth_prod_detail'',
         sandbox = OrgTypeItem localize ''auth_sandbox_label'' ''auth_sandbox_detail'',
         custom = OrgTypeItem localize ''auth_custom_label'' ''auth_custom_detail''\<rparr>\<rparr>"

text \<open>
  \<^verbatim>\<open>getQuickPickItems\<close> assigns to \<^verbatim>\<open>project.detail\<close>, a field of an object the
  gatherer keeps: it takes the gatherer and returns it updated, next to its result. An
  error of \<^verbatim>\<open>getProjectUrl\<close> is thrown before anything is assigned.
\<close>

definition getQuickPickItems ::
  "nls \<Rightarrow> workspace \<Rightarrow> AuthParamsGatherer \<Rightarrow>
     (js_error + QuickPickItem list) \<times> AuthParamsGatherer" where
  "getQuickPickItems localize w this =
     (case getProjectUrl w of
        Inl e \<Rightarrow> (Inl e, this)
      | Inr projectUrl \<Rightarrow>
          let items = [production (orgTypes this), sandbox (orgTypes this),
                       custom (orgTypes this)] in
          (case projectUrl of
             None \<Rightarrow> (Inr items, this)
           | Some url \<Rightarrow>
               if \<not> truthy url then (Inr items, this)
               else
                 let project' = (project (orgTypes this))
                       \<lparr>detail := Some (localize ''auth_project_detail'' @ '' ('' @
                                         ToString url @ '')'')\<rparr>
                 in (Inr (project' # items),
                     this\<lparr>orgTypes := (orgTypes this)\<lparr>project := project'\<rparr>\<rparr>)))"

text \<open>
  The two prompts of the editor. \<^verbatim>\<open>showQuickPick\<close> answers with an item or
  \<^verbatim>\<open>undefined\<close>, \<^verbatim>\<open>showInputBox\<close> with the text entered or \<^verbatim>\<open>undefined\<close>;
  what they answer is the user's doing, so they are functions the gatherer is given.
\<close>

record InputBoxOptions =
  prompt :: string
  placeHolder :: string
  validateInput :: "(string \<Rightarrow> string option) option"

record window =
  showQuickPick :: "QuickPickItem list \<Rightarrow> QuickPickItem option"
  showInputBox :: "InputBoxOptions \<Rightarrow> string option"

definition customUrlInputOptions :: "nls \<Rightarrow> InputBoxOptions" where
  "customUrlInputOptions localize =
     \<lparr>prompt = localize ''parameter_gatherer_enter_custom_url'',
      placeHolder = PRODUCTION_URL,
      validateInput = Some (validateUrl localize)\<rparr>"

definition aliasInputOptions :: "nls \<Rightarrow> InputBoxOptions" where
  "aliasInputOptions localize =
     \<lparr>prompt = localize ''parameter_gatherer_enter_alias_name'',
      placeHolder = DEFAULT_ALIAS,
      validateInput = None\<rparr>"

text \<open>
  The object \<^verbatim>\<open>gather\<close> builds. It is declared \<^verbatim>\<open>AuthParams\<close>, but its login
  URL can be the value read from the project file, which nothing checks to be a string:
  the field holds a JSON value.
\<close>

record AuthParams_value =
  alias_value :: string
  loginUrl_value :: json

text \<open>
  The end of \<^verbatim>\<open>gather\<close>, from the alias prompt on; every branch that has settled
  the login URL continues here.
\<close>

definition gather_alias ::
  "nls \<Rightarrow> window \<Rightarrow> json option \<Rightarrow> AuthParams_value response" where
  "gather_alias localize win loginUrl' =
     (case showInputBox win (aliasInputOptions localize) of
        None \<Rightarrow> CANCEL
      | Some a \<Rightarrow>
          CONTINUE \<lparr>alias_value = or_string a DEFAULT_ALIAS,
                    loginUrl_value = or_else loginUrl' (JString PRODUCTION_URL)\<rparr>)"

text \<open>
  \<^verbatim>\<open>gather\<close> reads the project file twice when the project item is chosen: once to
  build the items, once after the user has chosen. The file system may have changed in
  between, so the function takes the workspace as it is at each of the two reads.
\<close>

definition gather ::
  "nls \<Rightarrow> workspace \<Rightarrow> workspace \<Rightarrow> window \<Rightarrow> AuthParamsGatherer \<Rightarrow>
     (js_error + AuthParams_value response) \<times> AuthParamsGatherer" where
  "gather localize w w' win this =
     (case getQuickPickItems localize w this of
        (Inl e, this') \<Rightarrow> (Inl e, this')
      | (Inr quickPickItems, this') \<Rightarrow>
          (case showQuickPick win quickPickItems of
             None \<Rightarrow> (Inr CANCEL, this')
           | Some selection \<Rightarrow>
               let orgType = label selection in
               if orgType = label (custom (orgTypes this')) then
                 (case showInputBox win (customUrlInputOptions localize) of
                    None \<Rightarrow> (Inr CANCEL, this')
                  | Some url \<Rightarrow>
                      (Inr (gather_alias localize win (Some (JString url))), this'))
               else if orgType = label (project (orgTypes this')) then
                 (case getProjectUrl w' of
                    Inl e \<Rightarrow> (Inl e, this')
                  | Inr url \<Rightarrow> (Inr (gather_alias localize win url), this'))
               else
                 (Inr (gather_alias localize win
                         (Some (JString (if orgType = ''Sandbox'' then SANDBOX_URL
                                         else PRODUCTION_URL)))),
                  this')))"




subsection \<open>Objects, effects and the commandlet\<close>

text \<open>
  An object has an identity, a \<open>ref\<close>, which \<^verbatim>\<open>new\<close> draws from a counter, and
  methods. The state that outlives a call of \<^verbatim>\<open>forceAuthWebLogin\<close> is the state of
  the module: the fields of the gatherer object that the module creates once, and the
  counter. The module creates its two objects when it is loaded, the workspace checker
  first.
\<close>

type_synonym ref = nat

record module_state =
  gatherer_state :: AuthParamsGatherer
  next_ref :: ref

definition workspaceChecker :: ref where
  "workspaceChecker = 0"

definition parameterGatherer :: ref where
  "parameterGatherer = 1"

definition load_module :: "nls \<Rightarrow> module_state" where
  "load_module localize =
     \<lparr>gatherer_state = new_AuthParamsGatherer localize, next_ref = 2\<rparr>"

text \<open>
  What a run does to the editor and the command line is a list of events, in the order
  of the calls. The first three record the stages of a commandlet, with the object
  called; \<open>PromptLogOutForProdOrg\<close> records the call of the function of that name;
  the others are the calls of \<^verbatim>\<open>execute\<close> to its collaborators.
\<close>

datatype event =
    PrecheckerCheck ref bool
  | GathererGather ref "js_error + string"
  | ExecutorExecute ref
  | CliCommandExecutor_execute Command
  | ReportExecutionError string
  | LogMetric "string option"
  | StreamCommandOutput
  | ProgressNotificationShow
  | AddCommandExecution
  | GetCmdResult "js_error + string"
  | PromptLogOutForProdOrg
  | ShowSuccessfulExecution string

type_synonym 's effect = "'s \<Rightarrow> (event list \<times> (js_error + unit)) \<times> 's"

record 's PreconditionChecker =
  checker_ref :: ref
  checker_check :: "'s \<Rightarrow> bool"

record ('s, 'p) ParametersGatherer =
  gatherer_ref :: ref
  gatherer_gather :: "'s \<Rightarrow> (js_error + 'p response) \<times> 's"

record ('s, 'p) SfdxCommandletExecutor =
  executor_ref :: ref
  executor_execute :: "'p \<Rightarrow> 's effect"

record ('s, 'p) SfdxCommandlet =
  prechecker :: "'s PreconditionChecker"
  gatherer :: "('s, 'p) ParametersGatherer"
  executor :: "('s, 'p) SfdxCommandletExecutor"

fun response_type :: "'p response \<Rightarrow> string" where
  "response_type CANCEL = ''CANCEL''"
| "response_type (CONTINUE p) = ''CONTINUE''"

text \<open>
  Modelled from the spec: \<^verbatim>\<open>SfdxCommandlet.run\<close> is in \<^verbatim>\<open>commands.ts\<close>, which
  is not among the sources. The spec describes a commandlet as a composition that
  sequences workspace precondition check, then parameter gathering, then command
  execution, where the gatherer produces either a cancellation or a parameter bundle:
  the gatherer is asked when the check passes, and the executor is run on the bundle of
  a continue response. A rejection of the gatherer or the executor is the rejection of
  the run.
\<close>

definition run :: "('s, 'p) SfdxCommandlet \<Rightarrow> 's effect" where
  "run c s =
     (if checker_check (prechecker c) s then
        (case gatherer_gather (gatherer c) s of
           (Inl e, s1) \<Rightarrow>
             (([PrecheckerCheck (checker_ref (prechecker c)) True,
                GathererGather (gatherer_ref (gatherer c)) (Inl e)], Inl e), s1)
         | (Inr CANCEL, s1) \<Rightarrow>
             (([PrecheckerCheck (checker_ref (prechecker c)) True,
                GathererGather (gatherer_ref (gatherer c))
                  (Inr (response_type (CANCEL :: 'p response)))],
               Inr ()), s1)
         | (Inr (CONTINUE p), s1) \<Rightarrow>
             (case executor_execute (executor c) p s1 of
                ((evs, out), s2) \<Rightarrow>
                  (([PrecheckerCheck (checker_ref (prechecker c)) True,
                     GathererGather (gatherer_ref (gatherer c))
                       (Inr (response_type (CONTINUE p))),
                     ExecutorExecute (executor_ref (executor c))] @ evs, out), s2)))
      else (([PrecheckerCheck (checker_ref (prechecker c)) False], Inr ()), s))"

subsection \<open>The executors\<close>

text \<open>
  The collaborators of \<^verbatim>\<open>execute\<close>, as the fields of a record: \<open>toString\<close> is
  \<^verbatim>\<open>Command.toString\<close>; \<open>getCmdResult\<close> is what awaiting
  \<^verbatim>\<open>new CommandOutput().getCmdResult(execution)\<close> gives for the command run, the
  output or a rejection; \<open>JSON_parse_result\<close> is \<^verbatim>\<open>JSON.parse\<close> on that output,
  with \<open>'j\<close> the type of parsed values; \<open>isProdOrg\<close> is the function of the
  demo-mode module; \<open>showSuccessfulExecution\<close> is the awaited notification. The last
  three are the objects of the log-out commandlet: what the check of a new
  \<^verbatim>\<open>SfdxWorkspaceChecker\<close> answers, what \<^verbatim>\<open>DemoModePromptGatherer.gather\<close>
  answers, and how the executor of \<^verbatim>\<open>ForceAuthLogoutAll.withoutShowingChannel()\<close>
  ends.
\<close>

record 'j cli =
  toString :: "Command \<Rightarrow> string"
  getCmdResult :: "Command \<Rightarrow> js_error + string"
  JSON_parse_result :: "string \<Rightarrow> js_error + 'j"
  isProdOrg :: "'j \<Rightarrow> js_error + bool"
  showSuccessfulExecution :: "string \<Rightarrow> js_error + unit"
  logout_SfdxWorkspaceChecker_check :: bool
  DemoModePromptGatherer_gather :: "js_error + unit response"
  ForceAuthLogoutAll_execute :: "js_error + unit"

text \<open>
  \<^verbatim>\<open>promptLogOutForProdOrg\<close> creates three objects, in the order of the arguments,
  and runs the commandlet made of them.
\<close>

definition promptLogOutForProdOrg :: "'j cli \<Rightarrow> module_state effect" where
  "promptLogOutForProdOrg env s =
     (let r = next_ref s;
          s' = s\<lparr>next_ref := r + 3\<rparr>;
          commandlet =
            \<lparr>prechecker =
               \<lparr>checker_ref = r,
                checker_check = (\<lambda>s. logout_SfdxWorkspaceChecker_check env)\<rparr>,
             gatherer =
               \<lparr>gatherer_ref = r + 1,
                gatherer_gather = (\<lambda>s. (DemoModePromptGatherer_gather env, s))\<rparr>,
             executor =
               \<lparr>executor_ref = r + 2,
                executor_execute = (\<lambda>p s. (([], ForceAuthLogoutAll_execute env), s))\<rparr>\<rparr>
      in case run commandlet s' of
           ((evs, out), s2) \<Rightarrow> ((PromptLogOutForProdOrg # evs, out), s2))"

text \<open>
  The calls \<^verbatim>\<open>execute\<close> makes before it awaits the result, for the command built.
\<close>

definition started :: "'j cli \<Rightarrow> Command \<Rightarrow> event list" where
  "started env c =
     [CliCommandExecutor_execute c,
      ReportExecutionError (toString env c),
      LogMetric (logName c),
      StreamCommandOutput,
      ProgressNotificationShow,
      AddCommandExecution]"

text \<open>
  \<^verbatim>\<open>ForceAuthDemoModeExecutor.execute\<close>. The class is abstract in \<^verbatim>\<open>build\<close>,
  which is an argument here. Everything from the await on is inside \<^verbatim>\<open>try\<close>, and
  the handler rejects with the error caught.
\<close>

definition ForceAuthDemoModeExecutor_execute ::
  "'j cli \<Rightarrow> ('p \<Rightarrow> Command) \<Rightarrow> 'p \<Rightarrow> module_state effect" where
  "ForceAuthDemoModeExecutor_execute env build' data s =
     (let c = build' data in
      case getCmdResult env c of
        Inl err \<Rightarrow> ((started env c @ [GetCmdResult (Inl err)], Inl err), s)
      | Inr result \<Rightarrow>
          (case JSON_parse_result env result of
             Inl err \<Rightarrow> ((started env c @ [GetCmdResult (Inr result)], Inl err), s)
           | Inr parsed \<Rightarrow>
               (case isProdOrg env parsed of
                  Inl err \<Rightarrow> ((started env c @ [GetCmdResult (Inr result)], Inl err), s)
                | Inr isProd \<Rightarrow>
                    if isProd then
                      (case promptLogOutForProdOrg env s of
                         ((evs, out), s') \<Rightarrow>
                           ((started env c @ [GetCmdResult (Inr result)] @ evs, out), s'))
                    else
                      ((started env c @ [GetCmdResult (Inr result),
                          ShowSuccessfulExecution (toString env c)],
                        showSuccessfulExecution env (toString env c)), s))))"

text \<open>
  Modelled from the spec: \<^verbatim>\<open>SfdxCommandletExecutor.execute\<close>, which
  \<^verbatim>\<open>ForceAuthWebLoginExecutor\<close> inherits, is in \<^verbatim>\<open>commands.ts\<close>, not among the
  sources. The spec describes an executor as spawning the external process for the
  command built; nothing of what it does afterwards is used below.
\<close>

definition SfdxCommandletExecutor_execute :: "('p \<Rightarrow> Command) \<Rightarrow> 'p \<Rightarrow> 's effect" where
  "SfdxCommandletExecutor_execute build' data s =
     (([CliCommandExecutor_execute (build' data)], Inr ()), s)"

subsection \<open>The command\<close>

text \<open>
  What a call of \<^verbatim>\<open>forceAuthWebLogin\<close> finds around it: the message catalogue,
  the answer of \<^verbatim>\<open>isDemoMode()\<close>, the answer of the check of the module's
  \<^verbatim>\<open>SfdxWorkspaceChecker\<close>, the workspace at the two reads of the gatherer, the
  user at the prompts, and the collaborators of the executor.
\<close>

record 'j world =
  messages :: nls
  isDemoMode :: bool
  SfdxWorkspaceChecker_check :: bool
  workspace_at_items :: workspace
  workspace_at_choice :: workspace
  vscode_window :: window
  command_line :: "'j cli"

definition createExecutor ::
  "'j world \<Rightarrow> module_state \<Rightarrow>
     (module_state, AuthParams) SfdxCommandletExecutor \<times> module_state" where
  "createExecutor wd s =
     ((if isDemoMode wd then
         \<lparr>executor_ref = next_ref s,
          executor_execute =
            ForceAuthDemoModeExecutor_execute (command_line wd)
              (ForceAuthWebLoginDemoModeExecutor_build (messages wd))\<rparr>
       else
         \<lparr>executor_ref = next_ref s,
          executor_execute =
            SfdxCommandletExecutor_execute
              (ForceAuthWebLoginExecutor_build (messages wd))\<rparr>),
      s\<lparr>next_ref := next_ref s + 1\<rparr>)"

text \<open>
  The commandlet hands the object gathered to the executor as it is, and the builder
  appends its login URL to the argument list. That list is a list of strings here: a
  login URL that is not a string stands in it as the text it prints as, which is how the
  command line renders it. \<open>declared\<close> is the object as the builders take it.
\<close>

definition declared :: "AuthParams_value \<Rightarrow> AuthParams" where
  "declared data =
     \<lparr>alias' = alias_value data, loginUrl = ToString (loginUrl_value data)\<rparr>"

text \<open>
  The commandlet that \<^verbatim>\<open>forceAuthWebLogin\<close> builds: the two objects of the module
  and the executor just created. The gatherer object works on its fields in the module
  state.
\<close>

definition commandlet_of ::
  "'j world \<Rightarrow> module_state \<Rightarrow>
     (module_state, AuthParams_value) SfdxCommandlet \<times> module_state" where
  "commandlet_of wd s =
     (case createExecutor wd s of
        (ex, s') \<Rightarrow>
          (\<lparr>prechecker =
              \<lparr>checker_ref = workspaceChecker,
               checker_check = (\<lambda>s. SfdxWorkspaceChecker_check wd)\<rparr>,
            gatherer =
              \<lparr>gatherer_ref = parameterGatherer,
               gatherer_gather =
                 (\<lambda>s. case gather (messages wd) (workspace_at_items wd)
                               (workspace_at_choice wd) (vscode_window wd)
                               (gatherer_state s) of
                        (r, g) \<Rightarrow> (r, s\<lparr>gatherer_state := g\<rparr>))\<rparr>,
            executor =
              \<lparr>executor_ref = executor_ref ex,
               executor_execute = (\<lambda>data. executor_execute ex (declared data))\<rparr>\<rparr>,
           s'))"

definition forceAuthWebLogin :: "'j world \<Rightarrow> module_state effect" where
  "forceAuthWebLogin wd s = (case commandlet_of wd s of (commandlet, s') \<Rightarrow> run commandlet s')"

subsection \<open>Fixtures\<close>

text \<open>
  Concrete catalogues, workspaces and users, on which the results below are run. \<open>en\<close>
  and \<open>de\<close> are catalogues in the manner of an English and a German one; a key they
  do not list is its own message.
\<close>

definition en :: nls where
  "en k =
     (if k = ''auth_project_label'' then ''Project Default''
      else if k = ''auth_prod_label'' then ''Production''
      else if k = ''auth_sandbox_label'' then ''Sandbox''
      else if k = ''auth_custom_label'' then ''Custom''
      else if k = ''auth_invalid_url'' then ''URL must begin with http:// or https://''
      else k)"

definition de :: nls where
  "de k =
     (if k = ''auth_project_label'' then ''Projektstandard''
      else if k = ''auth_prod_label'' then ''Produktion''
      else if k = ''auth_sandbox_label'' then ''Sandkasten''
      else if k = ''auth_custom_label'' then ''Benutzerdefiniert''
      else k)"

text \<open>
  A workspace at \<^verbatim>\<open>/ws\<close> whose project file has the given text, which the parser
  turns into the given result.
\<close>

definition workspace_with :: "string \<Rightarrow> js_error + json \<Rightarrow> workspace" where
  "workspace_with text parsed =
     \<lparr>rootPath = Some ''/ws'',
      path_join = (\<lambda>a b. a @ ''/'' @ b),
      SFDX_PROJECT_FILE = ''sfdx-project.json'',
      existsSync = (\<lambda>p. p = ''/ws/sfdx-project.json''),
      readFileSync = (\<lambda>p. if p = ''/ws/sfdx-project.json'' then Inr text
                           else Inl (Error ''ENOENT'')),
      JSON_parse = (\<lambda>s. if s = text then parsed
                         else Inl (SyntaxError ''Unexpected token''))\<rparr>"


text \<open>A project file \<^verbatim>\<open>{}\<close>: it parses, and has no login URL.\<close>

definition plain_workspace :: workspace where
  "plain_workspace = workspace_with ''{}'' (Inr (JObject []))"

text \<open>
  The user of the tests: the quick pick answers with an item of the given label, the
  box that validates answers with the custom URL, the other box with the alias.
\<close>

definition stub_window :: "string \<Rightarrow> string option \<Rightarrow> string option \<Rightarrow> window" where
  "stub_window orgType customUrl orgAlias =
     \<lparr>showQuickPick = (\<lambda>items. Some \<lparr>label = orgType, detail = None\<rparr>),
      showInputBox = (\<lambda>opts. case validateInput opts of
                                Some v \<Rightarrow> customUrl | None \<Rightarrow> orgAlias)\<rparr>"


text \<open>A user who picks the item at the given position and enters the given alias.\<close>

definition picking_window :: "nat \<Rightarrow> string option \<Rightarrow> window" where
  "picking_window i orgAlias =
     \<lparr>showQuickPick = (\<lambda>items. if i < length items then Some (items ! i) else None),
      showInputBox = (\<lambda>opts. case validateInput opts of
                                Some v \<Rightarrow> None | None \<Rightarrow> orgAlias)\<rparr>"

text \<open>
  A command line that answers the same to every command: the given result, the given
  parse of it and the given verdict on it. \<^verbatim>\<open>toString\<close> gives the description when
  there is one. The log-out commandlet passes its check and its prompt.
\<close>

definition cli_with :: "js_error + string \<Rightarrow> js_error + 'j \<Rightarrow> js_error + bool \<Rightarrow> 'j cli" where
  "cli_with result parsed verdict =
     \<lparr>toString = (\<lambda>c. case description c of Some d \<Rightarrow> d | None \<Rightarrow> toCommand c),
      getCmdResult = (\<lambda>c. result),
      JSON_parse_result = (\<lambda>s. parsed),
      isProdOrg = (\<lambda>j. verdict),
      showSuccessfulExecution = (\<lambda>m. Inr ()),
      logout_SfdxWorkspaceChecker_check = True,
      DemoModePromptGatherer_gather = Inr (CONTINUE ()),
      ForceAuthLogoutAll_execute = Inr ()\<rparr>"

text \<open>
  A call in demo mode, in an open project without a login URL, by the user of the tests
  who chooses production and enters an alias.
\<close>

definition demo_world :: "'j cli \<Rightarrow> 'j world" where
  "demo_world env =
     \<lparr>messages = en,
      isDemoMode = True,
      SfdxWorkspaceChecker_check = True,
      workspace_at_items = plain_workspace,
      workspace_at_choice = plain_workspace,
      vscode_window = stub_window ''Production'' None (Some ''testAlias''),
      command_line = env\<rparr>"

text \<open>
  A project file that gives a login URL (\<open>CHR 0x22\<close> is the double quote), and a
  call in demo mode in that project.
\<close>

definition project_workspace :: workspace where
  "project_workspace =
     workspace_with
       (''{'' @ [CHR 0x22] @ ''sfdcLoginUrl'' @ [CHR 0x22] @ '': '' @ [CHR 0x22] @
        ''https://my.testdomain.salesforce.com'' @ [CHR 0x22] @ ''}'')
       (Inr (JObject [(''sfdcLoginUrl'', JString ''https://my.testdomain.salesforce.com'')]))"

definition project_world :: "'j cli \<Rightarrow> 'j world" where
  "project_world env =
     (demo_world env)\<lparr>workspace_at_items := project_workspace,
                      workspace_at_choice := project_workspace\<rparr>"

text \<open>
  A project file whose login URL is the number 123 (\<open>CHR 0x22\<close> is the double
  quote).
\<close>

definition numeric_workspace :: workspace where
  "numeric_workspace =
     workspace_with
       (''{'' @ [CHR 0x22] @ ''sfdcLoginUrl'' @ [CHR 0x22] @ '': 123}'')
       (Inr (JObject [(''sfdcLoginUrl'', JNumber ''123'')]))"

section \<open>Properties\<close>

subsection \<open>The command builders\<close>

text \<open>
  C1. For every parameter bundle, \<^verbatim>\<open>ForceAuthWebLoginExecutor.build\<close> returns a
  command whose argument list is exactly \<^verbatim>\<open>force:auth:web:login\<close>,
  \<^verbatim>\<open>--setalias\<close>, the alias, \<^verbatim>\<open>--instanceurl\<close>, the login URL,
  \<^verbatim>\<open>--setdefaultusername\<close>, which renders as the \<^verbatim>\<open>sfdx\<close> command line of
  the test, whose description is the localized
  \<^verbatim>\<open>force_auth_web_login_authorize_org_text\<close> message and whose log name is
  \<^verbatim>\<open>force_auth_web_login\<close>.
\<close>

theorem web_login_build:
  "args (ForceAuthWebLoginExecutor_build localize \<lparr>alias' = a, loginUrl = u\<rparr>) =
     [''force:auth:web:login'', ''--setalias'', a, ''--instanceurl'', u,
      ''--setdefaultusername'']
   \<and> toCommand (ForceAuthWebLoginExecutor_build localize \<lparr>alias' = a, loginUrl = u\<rparr>) =
     ''sfdx force:auth:web:login --setalias '' @ a @ '' --instanceurl '' @ u @
     '' --setdefaultusername''
   \<and> description (ForceAuthWebLoginExecutor_build localize \<lparr>alias' = a, loginUrl = u\<rparr>) =
     Some (localize ''force_auth_web_login_authorize_org_text'')
   \<and> logName (ForceAuthWebLoginExecutor_build localize \<lparr>alias' = a, loginUrl = u\<rparr>) =
     Some ''force_auth_web_login''"
  by (simp add: ForceAuthWebLoginExecutor_build_def build_def withLogName_def withArg_def
      withFlag_def withDescription_def SfdxCommandBuilder_def toCommand_def)

text \<open>
  C2. For every parameter bundle, \<^verbatim>\<open>ForceAuthWebLoginDemoModeExecutor.build\<close>
  returns a command with the argument list of the other builder followed by
  \<^verbatim>\<open>--noprompt\<close> and the JSON flag, rendering as in the test, with the same
  localized description and the log name \<^verbatim>\<open>force_auth_web_login_demo_mode\<close>.
\<close>

theorem web_login_demo_mode_build:
  "args (ForceAuthWebLoginDemoModeExecutor_build localize \<lparr>alias' = a, loginUrl = u\<rparr>) =
     args (ForceAuthWebLoginExecutor_build localize \<lparr>alias' = a, loginUrl = u\<rparr>) @
     [''--noprompt'', ''--json'', ''--loglevel'', ''fatal'']
   \<and> toCommand (ForceAuthWebLoginDemoModeExecutor_build localize \<lparr>alias' = a, loginUrl = u\<rparr>) =
     ''sfdx force:auth:web:login --setalias '' @ a @ '' --instanceurl '' @ u @
     '' --setdefaultusername --noprompt --json --loglevel fatal''
   \<and> description (ForceAuthWebLoginDemoModeExecutor_build localize \<lparr>alias' = a, loginUrl = u\<rparr>) =
     description (ForceAuthWebLoginExecutor_build localize \<lparr>alias' = a, loginUrl = u\<rparr>)
   \<and> description (ForceAuthWebLoginDemoModeExecutor_build localize \<lparr>alias' = a, loginUrl = u\<rparr>) =
     Some (localize ''force_auth_web_login_authorize_org_text'')
   \<and> logName (ForceAuthWebLoginDemoModeExecutor_build localize \<lparr>alias' = a, loginUrl = u\<rparr>) =
     Some ''force_auth_web_login_demo_mode''"
  by (simp add: ForceAuthWebLoginDemoModeExecutor_build_def
      ForceAuthWebLoginExecutor_build_def build_def withLogName_def withArg_def withFlag_def
      withJson_def withDescription_def SfdxCommandBuilder_def toCommand_def)

subsection \<open>URL validation\<close>

text \<open>What \<open>test\<close> computes is membership of some part of the text in \<open>lang\<close>.\<close>

lemma nullable_lang: "nullable r \<longleftrightarrow> [] \<in> lang r"
  by (induction r) (auto intro: star.star_nil)

lemma star_cons_split:
  assumes "w \<in> star A" and "w = c # t"
  shows "\<exists>u v. t = u @ v \<and> c # u \<in> A \<and> v \<in> star A"
  using assms
proof (induction arbitrary: t rule: star.induct)
  case star_nil
  then show ?case by simp
next
  case (star_step u v)
  show ?case
  proof (cases u)
    case Nil
    with star_step show ?thesis by simp
  next
    case (Cons d u')
    with star_step.prems have "d = c" and "t = u' @ v" by simp_all
    with Cons star_step.hyps show ?thesis by blast
  qed
qed

lemma lang_Seq_iff:
  "w \<in> lang (Seq r s) \<longleftrightarrow> (\<exists>u v. w = u @ v \<and> u \<in> lang r \<and> v \<in> lang s)"
  by simp

lemma lang_deriv: "w \<in> lang (deriv c r) \<longleftrightarrow> c # w \<in> lang r"
proof (induction r arbitrary: w)
  case Never
  show ?case by simp
next
  case Empty
  show ?case by simp
next
  case (Lit d)
  show ?case by auto
next
  case Dot
  show ?case by auto
next
  case (Alt r s)
  then show ?case by simp
next
  case (Seq r s)
  show ?case
  proof
    assume a: "w \<in> lang (deriv c (Seq r s))"
    have "(\<exists>u v. w = u @ v \<and> c # u \<in> lang r \<and> v \<in> lang s) \<or> ([] \<in> lang r \<and> c # w \<in> lang s)"
      using a Seq by (cases "nullable r") (auto simp: nullable_lang)
    then show "c # w \<in> lang (Seq r s)"
    proof
      assume "\<exists>u v. w = u @ v \<and> c # u \<in> lang r \<and> v \<in> lang s"
      then obtain u v where "c # w = (c # u) @ v" "c # u \<in> lang r" "v \<in> lang s" by auto
      then show ?thesis unfolding lang_Seq_iff by blast
    next
      assume "[] \<in> lang r \<and> c # w \<in> lang s"
      then have "c # w = [] @ (c # w)" "[] \<in> lang r" "c # w \<in> lang s" by simp_all
      then show ?thesis unfolding lang_Seq_iff by blast
    qed
  next
    assume "c # w \<in> lang (Seq r s)"
    then obtain u v where uv: "c # w = u @ v" "u \<in> lang r" "v \<in> lang s"
      unfolding lang_Seq_iff by blast
    show "w \<in> lang (deriv c (Seq r s))"
    proof (cases u)
      case Nil
      with uv have "nullable r" "w \<in> lang (deriv c s)" by (simp_all add: nullable_lang Seq)
      then show ?thesis by simp
    next
      case (Cons d u')
      with uv(1) have dc: "d = c" and w: "w = u' @ v" by simp_all
      from uv(2) Cons dc have "c # u' \<in> lang r" by simp
      then have "u' \<in> lang (deriv c r)" by (simp add: Seq)
      note w this
      with uv(3) have "w \<in> lang (Seq (deriv c r) s)" unfolding lang_Seq_iff by blast
      then show ?thesis by (cases "nullable r") simp_all
    qed
  qed
next
  case (Star r)
  show ?case
  proof
    assume "w \<in> lang (deriv c (Star r))"
    then have "w \<in> lang (Seq (deriv c r) (Star r))" by simp
    then obtain u v where "w = u @ v" "u \<in> lang (deriv c r)" "v \<in> lang (Star r)"
      unfolding lang_Seq_iff by blast
    then have uv: "w = u @ v" "c # u \<in> lang r" "v \<in> star (lang r)"
      by (simp_all add: Star)
    then have "(c # u) @ v \<in> star (lang r)" by (blast intro: star.star_step)
    with uv(1) show "c # w \<in> lang (Star r)" by simp
  next
    assume "c # w \<in> lang (Star r)"
    then have "c # w \<in> star (lang r)" by simp
    from star_cons_split [OF this refl]
    obtain u v where "w = u @ v" "c # u \<in> lang r" "v \<in> star (lang r)" by blast
    then have "w = u @ v" "u \<in> lang (deriv c r)" "v \<in> lang (Star r)" by (simp_all add: Star)
    then have "w \<in> lang (Seq (deriv c r) (Star r))" unfolding lang_Seq_iff by blast
    then show "w \<in> lang (deriv c (Star r))" by simp
  qed
qed

lemma match_at_lang: "match_at r s \<longleftrightarrow> (\<exists>u v. s = u @ v \<and> u \<in> lang r)"
proof (induction s arbitrary: r)
  case Nil
  then show ?case by (simp add: nullable_lang)
next
  case (Cons c cs)
  show ?case
  proof
    assume "match_at r (c # cs)"
    then consider "nullable r" | "match_at (deriv c r) cs" by auto
    then show "\<exists>u v. c # cs = u @ v \<and> u \<in> lang r"
    proof cases
      case 1
      then have "c # cs = [] @ (c # cs) \<and> [] \<in> lang r" by (simp add: nullable_lang)
      then show ?thesis by blast
    next
      case 2
      then obtain u v where "cs = u @ v" "u \<in> lang (deriv c r)" using Cons by blast
      then have "c # cs = (c # u) @ v \<and> c # u \<in> lang r" by (simp add: lang_deriv)
      then show ?thesis by blast
    qed
  next
    assume "\<exists>u v. c # cs = u @ v \<and> u \<in> lang r"
    then obtain u v where uv: "c # cs = u @ v" "u \<in> lang r" by blast
    show "match_at r (c # cs)"
    proof (cases u)
      case Nil
      with uv(2) have "nullable r" by (simp add: nullable_lang)
      then show ?thesis by simp
    next
      case (Cons d u')
      with uv have "cs = u' @ v" "u' \<in> lang (deriv c r)" by (simp_all add: lang_deriv)
      then have "match_at (deriv c r) cs" using Cons.IH by blast
      then show ?thesis by simp
    qed
  qed
qed

lemma test_lang: "test r s \<longleftrightarrow> (\<exists>p u v. s = p @ u @ v \<and> u \<in> lang r)"
proof (induction s)
  case Nil
  then show ?case by (simp add: nullable_lang)
next
  case (Cons c cs)
  show ?case
  proof
    assume "test r (c # cs)"
    then consider "match_at r (c # cs)" | "test r cs" by auto
    then show "\<exists>p u v. c # cs = p @ u @ v \<and> u \<in> lang r"
    proof cases
      case 1
      then obtain u v where "c # cs = [] @ u @ v \<and> u \<in> lang r"
        by (auto simp: match_at_lang)
      then show ?thesis by blast
    next
      case 2
      then obtain p u v where "cs = p @ u @ v" "u \<in> lang r" using Cons by blast
      then have "c # cs = (c # p) @ u @ v \<and> u \<in> lang r" by simp
      then show ?thesis by blast
    qed
  next
    assume "\<exists>p u v. c # cs = p @ u @ v \<and> u \<in> lang r"
    then obtain p u v where puv: "c # cs = p @ u @ v" "u \<in> lang r" by blast
    show "test r (c # cs)"
    proof (cases p)
      case Nil
      with puv have "match_at r (c # cs)" by (auto simp: match_at_lang)
      then show ?thesis by simp
    next
      case (Cons d p')
      with puv have "cs = p' @ u @ v" by simp
      with puv have "test r cs" using Cons.IH by blast
      then show ?thesis by simp
    qed
  qed
qed



lemma lang_Str: "lang (Str s) = {s}"
  by (induction s) auto

lemma lang_Seq_Str:
  "w \<in> lang (Seq (Str a) r) \<longleftrightarrow> (\<exists>v. w = a @ v \<and> v \<in> lang r)"
  unfolding lang_Seq_iff lang_Str by simp

lemma lang_Seq_Opt_Lit:
  "w \<in> lang (Seq (Opt (Lit c)) r) \<longleftrightarrow> (w \<in> lang r \<or> (\<exists>v. w = c # v \<and> v \<in> lang r))"
proof
  assume "w \<in> lang (Seq (Opt (Lit c)) r)"
  then show "w \<in> lang r \<or> (\<exists>v. w = c # v \<and> v \<in> lang r)"
    unfolding lang_Seq_iff Opt_def by auto
next
  assume "w \<in> lang r \<or> (\<exists>v. w = c # v \<and> v \<in> lang r)"
  then show "w \<in> lang (Seq (Opt (Lit c)) r)"
  proof
    assume "w \<in> lang r"
    then have "w = [] @ w \<and> [] \<in> lang (Opt (Lit c)) \<and> w \<in> lang r"
      by (simp add: Opt_def)
    then show ?thesis unfolding lang_Seq_iff by blast
  next
    assume "\<exists>v. w = c # v \<and> v \<in> lang r"
    then obtain v where "w = [c] @ v \<and> [c] \<in> lang (Opt (Lit c)) \<and> v \<in> lang r"
      by (auto simp: Opt_def)
    then show ?thesis unfolding lang_Seq_iff by blast
  qed
qed

lemma lang_expr:
  "u \<in> lang expr \<longleftrightarrow>
     (\<exists>t. t \<in> star (lang Dot) \<and> (u = ''http://'' @ t \<or> u = ''https://'' @ t))"
proof -
  have "u \<in> lang expr \<longleftrightarrow>
    (\<exists>v. u = ''http'' @ v \<and>
       ((\<exists>t. v = ''://'' @ t \<and> t \<in> lang (Star Dot)) \<or>
        (\<exists>v'. v = CHR ''s'' # v' \<and> (\<exists>t. v' = ''://'' @ t \<and> t \<in> lang (Star Dot)))))"
    unfolding expr_def lang_Seq_Str lang_Seq_Opt_Lit ..
  also have "\<dots> \<longleftrightarrow>
     (\<exists>t. t \<in> star (lang Dot) \<and> (u = ''http://'' @ t \<or> u = ''https://'' @ t))"
    by (simp del: lang.simps(4) add: ex_disj_distrib) blast
  finally show ?thesis .
qed

lemma contains_iff: "contains s pat \<longleftrightarrow> (\<exists>pre post. s = pre @ pat @ post)"
  by (simp add: contains_def sublist_def)

lemma test_expr:
  "test expr url \<longleftrightarrow> contains url ''http://'' \<or> contains url ''https://''"
proof
  assume "test expr url"
  then obtain p u v where "url = p @ u @ v" "u \<in> lang expr" by (auto simp: test_lang)
  then obtain t where "url = p @ ''http://'' @ (t @ v) \<or> url = p @ ''https://'' @ (t @ v)"
    by (auto simp: lang_expr)
  then show "contains url ''http://'' \<or> contains url ''https://''"
    unfolding contains_iff by blast
next
  assume "contains url ''http://'' \<or> contains url ''https://''"
  then obtain p q where pq: "url = p @ ''http://'' @ q \<or> url = p @ ''https://'' @ q"
    unfolding contains_iff by blast
  have "''http://'' \<in> lang expr" "''https://'' \<in> lang expr"
    using lang_expr star.star_nil by force+
  with pq show "test expr url" unfolding test_lang by blast
qed


text \<open>
  C10. \<^verbatim>\<open>validateUrl\<close> returns null for every string that has \<^verbatim>\<open>http://\<close> or
  \<^verbatim>\<open>https://\<close> anywhere inside it, whatever text comes before the scheme (the
  expression is not anchored), and the localized \<^verbatim>\<open>auth_invalid_url\<close> message for
  every other string.
\<close>

theorem validateUrl_unanchored:
  "validateUrl localize url =
     (if contains url ''http://'' \<or> contains url ''https://'' then None
      else Some (localize ''auth_invalid_url''))
   \<and> validateUrl localize (pre @ ''http://'' @ post) = None
   \<and> validateUrl localize (pre @ ''https://'' @ post) = None"
proof -
  have "contains (pre @ ''http://'' @ post) ''http://''"
    and "contains (pre @ ''https://'' @ post) ''https://''"
    unfolding contains_iff by blast+
  then show ?thesis
    unfolding validateUrl_def test_expr by simp
qed

theorem validateUrl_unanchored_witness:
  "validateUrl (\<lambda>k. k) ''see https://x.y'' = None
   \<and> (contains ''see https://x.y'' ''http://'' \<or> contains ''see https://x.y'' ''https://'')
   \<and> validateUrl (\<lambda>k. k) ''ftp://x.y'' = Some ''auth_invalid_url''
   \<and> \<not> contains ''ftp://x.y'' ''http://'' \<and> \<not> contains ''ftp://x.y'' ''https://''"
proof -
  have a: "validateUrl (\<lambda>k. k) ''see https://x.y'' = None"
    by (simp add: validateUrl_def expr_def Opt_def is_line_terminator_def)
  have b: "validateUrl (\<lambda>k. k) ''ftp://x.y'' = Some ''auth_invalid_url''"
    by (simp add: validateUrl_def expr_def Opt_def is_line_terminator_def)
  from a validateUrl_unanchored [of "\<lambda>k. k" "''see https://x.y''" "[]" "[]"]
  have c: "contains ''see https://x.y'' ''http://'' \<or> contains ''see https://x.y'' ''https://''"
    by (simp split: if_splits)
  from b validateUrl_unanchored [of "\<lambda>k. k" "''ftp://x.y''" "[]" "[]"]
  have d: "\<not> contains ''ftp://x.y'' ''http://'' \<and> \<not> contains ''ftp://x.y'' ''https://''"
    by (simp split: if_splits)
  from a b c d show ?thesis by blast
qed

subsection \<open>The parameter gatherer\<close>

lemma getQuickPickItems_frame:
  assumes "getQuickPickItems localize w this = (r, this')"
  shows "production (orgTypes this') = production (orgTypes this)"
    and "sandbox (orgTypes this') = sandbox (orgTypes this)"
    and "custom (orgTypes this') = custom (orgTypes this)"
    and "label (project (orgTypes this')) = label (project (orgTypes this))"
  using assms
  by (auto simp: getQuickPickItems_def Let_def split: sum.splits option.splits if_splits)



lemma getQuickPickItems_fst_Inr:
  "fst (getQuickPickItems localize w this) = Inr items \<Longrightarrow> \<exists>u. getProjectUrl w = Inr u"
  by (cases "getProjectUrl w") (simp_all add: getQuickPickItems_def)

lemma or_else_truthy: "truthy d \<Longrightarrow> truthy (or_else x d)"
  by (cases x) auto

lemma gather_alias_cases:
  "gather_alias localize win u =
     (case showInputBox win (aliasInputOptions localize) of
        None \<Rightarrow> CANCEL
      | Some a \<Rightarrow> CONTINUE \<lparr>alias_value = (if a = [] then DEFAULT_ALIAS else a),
                             loginUrl_value = or_else u (JString PRODUCTION_URL)\<rparr>)"
  by (simp add: gather_alias_def or_string_def split: option.splits)

text \<open>\<^verbatim>\<open>gather\<close> once the first read of the project file has succeeded.\<close>

lemma gather_after_items:
  assumes "getQuickPickItems localize w this = (Inr items, this')"
  shows "gather localize w w' win this =
     (case showQuickPick win items of
        None \<Rightarrow> (Inr CANCEL, this')
      | Some selection \<Rightarrow>
          if label selection = label (custom (orgTypes this)) then
            (case showInputBox win (customUrlInputOptions localize) of
               None \<Rightarrow> (Inr CANCEL, this')
             | Some url \<Rightarrow> (Inr (gather_alias localize win (Some (JString url))), this'))
          else if label selection = label (project (orgTypes this)) then
            (case getProjectUrl w' of
               Inl e \<Rightarrow> (Inl e, this')
             | Inr url \<Rightarrow> (Inr (gather_alias localize win url), this'))
          else
            (Inr (gather_alias localize win
                    (Some (JString (if label selection = ''Sandbox'' then SANDBOX_URL
                                    else PRODUCTION_URL)))),
             this'))"
  using assms getQuickPickItems_frame(3,4) [OF assms]
  by (simp add: gather_def Let_def split: option.splits)





lemma plain_workspace_url: "getProjectUrl plain_workspace = Inr None"
  by (simp add: getProjectUrl_def plain_workspace_def workspace_with_def)

lemma plain_workspace_items:
  "getQuickPickItems localize plain_workspace this =
     (Inr [production (orgTypes this), sandbox (orgTypes this), custom (orgTypes this)], this)"
  by (simp add: getQuickPickItems_def plain_workspace_url)

lemma project_workspace_url:
  "getProjectUrl project_workspace =
     Inr (Some (JString ''https://my.testdomain.salesforce.com''))"
  by (simp add: getProjectUrl_def project_workspace_def workspace_with_def)


lemma numeric_workspace_url: "getProjectUrl numeric_workspace = Inr (Some (JNumber ''123''))"
  by (simp add: getProjectUrl_def numeric_workspace_def workspace_with_def)

lemma en_labels:
  "label (custom (orgTypes (new_AuthParamsGatherer en))) = ''Custom''"
  "label (project (orgTypes (new_AuthParamsGatherer en))) = ''Project Default''"
  by (simp_all add: new_AuthParamsGatherer_def OrgTypeItem_def en_def)




text \<open>
  C8. The sandbox URL is chosen by comparing the label with the literal
  \<^verbatim>\<open>Sandbox\<close>, not with the localized label of the sandbox item: for a selection
  whose label is neither the custom nor the project label, the login URL of the response
  is \<^verbatim>\<open>SANDBOX_URL\<close> if and only if the label is exactly \<^verbatim>\<open>Sandbox\<close>, and
  \<^verbatim>\<open>PRODUCTION_URL\<close> otherwise. This holds for every message catalogue.
\<close>

theorem sandbox_by_literal_label:
  assumes "getQuickPickItems localize w this = (Inr items, this')"
    and "showQuickPick win items = Some selection"
    and "label selection \<noteq> label (custom (orgTypes this))"
    and "label selection \<noteq> label (project (orgTypes this))"
    and "showInputBox win (aliasInputOptions localize) = Some a"
  shows "\<exists>p. gather localize w w' win this = (Inr (CONTINUE p), this')
     \<and> loginUrl_value p =
         JString (if label selection = ''Sandbox'' then SANDBOX_URL else PRODUCTION_URL)
     \<and> (loginUrl_value p = JString SANDBOX_URL \<longleftrightarrow> label selection = ''Sandbox'')"
  using assms(2-5) unfolding gather_after_items [OF assms(1)] gather_alias_cases
  by (simp add: SANDBOX_URL_def PRODUCTION_URL_def)

text \<open>
  With a catalogue whose sandbox label is not the literal, choosing the sandbox item
  itself gives the production URL.
\<close>

theorem sandbox_by_literal_label_witness:
  "gather de plain_workspace plain_workspace (picking_window 1 (Some []))
      (new_AuthParamsGatherer de) =
     (Inr (CONTINUE \<lparr>alias_value = ''vscodeOrg'',
                      loginUrl_value = JString ''https://login.salesforce.com''\<rparr>),
      new_AuthParamsGatherer de)
   \<and> showQuickPick (picking_window 1 (Some []))
        [production (orgTypes (new_AuthParamsGatherer de)),
         sandbox (orgTypes (new_AuthParamsGatherer de)),
         custom (orgTypes (new_AuthParamsGatherer de))] =
       Some (sandbox (orgTypes (new_AuthParamsGatherer de)))
   \<and> label (sandbox (orgTypes (new_AuthParamsGatherer de))) = ''Sandkasten''"
proof -
  let ?win = "picking_window 1 (Some [])"
  let ?g = "new_AuthParamsGatherer de"
  let ?items = "[production (orgTypes ?g), sandbox (orgTypes ?g), custom (orgTypes ?g)]"
  have pick: "showQuickPick ?win ?items = Some (sandbox (orgTypes ?g))"
    by (simp add: picking_window_def)
  have lab: "label (sandbox (orgTypes ?g)) = ''Sandkasten''"
    "label (custom (orgTypes ?g)) = ''Benutzerdefiniert''"
    "label (project (orgTypes ?g)) = ''Projektstandard''"
    by (simp_all add: new_AuthParamsGatherer_def OrgTypeItem_def de_def)
  have box: "showInputBox ?win (aliasInputOptions de) = Some []"
    by (simp add: picking_window_def aliasInputOptions_def)
  from sandbox_by_literal_label [OF plain_workspace_items pick _ _ box, of plain_workspace]
  obtain p where p: "gather de plain_workspace plain_workspace ?win ?g = (Inr (CONTINUE p), ?g)"
    "loginUrl_value p = JString PRODUCTION_URL"
    by (auto simp: lab)
  have "gather de plain_workspace plain_workspace ?win ?g =
     (Inr (CONTINUE \<lparr>alias_value = ''vscodeOrg'',
                      loginUrl_value = JString ''https://login.salesforce.com''\<rparr>), ?g)"
    unfolding gather_after_items [OF plain_workspace_items] pick
    by (simp add: lab picking_window_def aliasInputOptions_def gather_alias_cases
        DEFAULT_ALIAS_def PRODUCTION_URL_def)
  with p(1) have "p = \<lparr>alias_value = ''vscodeOrg'',
                      loginUrl_value = JString ''https://login.salesforce.com''\<rparr>"
    by simp
  with p(1) have "gather de plain_workspace plain_workspace ?win ?g =
     (Inr (CONTINUE \<lparr>alias_value = ''vscodeOrg'', loginUrl_value = loginUrl_value p\<rparr>), ?g)"
    by simp
  with p(2) pick lab(1) show ?thesis by (simp add: PRODUCTION_URL_def)
qed

text \<open>
  C9 (amended). Whenever \<^verbatim>\<open>gather\<close> returns a continue response, the alias is a
  non-empty string, an empty alias being replaced by \<^verbatim>\<open>vscodeOrg\<close>, and the login
  URL is truthy: an empty custom URL and a missing or falsy project URL are replaced by
  the production URL. The login URL is a non-empty string unless the project item was
  chosen and the project file gives for \<^verbatim>\<open>sfdcLoginUrl\<close> a truthy value that is not
  a string, which is passed on as it is.
\<close>

theorem continue_fields_nonempty:
  assumes "gather localize w w' win this = (Inr (CONTINUE p), this')"
  shows "alias_value p \<noteq> [] \<and> truthy (loginUrl_value p)
     \<and> (\<exists>a. showInputBox win (aliasInputOptions localize) = Some a
           \<and> alias_value p = (if a = [] then DEFAULT_ALIAS else a))
     \<and> (\<exists>items selection.
           fst (getQuickPickItems localize w this) = Inr items
           \<and> showQuickPick win items = Some selection
           \<and> (if label selection = label (custom (orgTypes this)) then
                 \<exists>url. showInputBox win (customUrlInputOptions localize) = Some url
                   \<and> loginUrl_value p = JString (if url = [] then PRODUCTION_URL else url)
               else if label selection = label (project (orgTypes this)) then
                 \<exists>projectUrl. getProjectUrl w' = Inr projectUrl
                   \<and> loginUrl_value p = (case projectUrl of None \<Rightarrow> JString PRODUCTION_URL
                        | Some v \<Rightarrow> if truthy v then v else JString PRODUCTION_URL)
                   \<and> ((\<exists>s. loginUrl_value p = JString s \<and> s \<noteq> [])
                       \<or> (\<exists>v. projectUrl = Some v \<and> truthy v \<and> (\<forall>s. v \<noteq> JString s)
                             \<and> loginUrl_value p = v))
               else loginUrl_value p =
                      JString (if label selection = ''Sandbox'' then SANDBOX_URL
                               else PRODUCTION_URL))
           \<and> (label selection = label (custom (orgTypes this))
                 \<or> label selection \<noteq> label (project (orgTypes this)) \<longrightarrow>
               (\<exists>s. loginUrl_value p = JString s \<and> s \<noteq> [])))"
proof -
  obtain q where q: "getQuickPickItems localize w this = (q, this')"
    using assms by (cases "getQuickPickItems localize w this")
      (auto simp: gather_def Let_def split: sum.splits option.splits if_splits)
  with assms obtain items where items: "q = Inr items"
    by (cases q) (auto simp: gather_def)
  note g = gather_after_items [OF q [unfolded items]]
  from assms obtain selection where sel: "showQuickPick win items = Some selection"
    unfolding g by (auto split: option.splits)
  from assms obtain a where a: "showInputBox win (aliasInputOptions localize) = Some a"
    "alias_value p = (if a = [] then DEFAULT_ALIAS else a)"
    unfolding g gather_alias_cases by (auto split: option.splits if_splits sum.splits)
  have prod: "truthy (JString PRODUCTION_URL)" by (simp add: PRODUCTION_URL_def)
  have sand: "SANDBOX_URL \<noteq> []" "PRODUCTION_URL \<noteq> []"
    by (simp_all add: SANDBOX_URL_def PRODUCTION_URL_def)
  have url: "(if label selection = label (custom (orgTypes this)) then
                 \<exists>url. showInputBox win (customUrlInputOptions localize) = Some url
                   \<and> loginUrl_value p = JString (if url = [] then PRODUCTION_URL else url)
               else if label selection = label (project (orgTypes this)) then
                 \<exists>projectUrl. getProjectUrl w' = Inr projectUrl
                   \<and> loginUrl_value p = (case projectUrl of None \<Rightarrow> JString PRODUCTION_URL
                        | Some v \<Rightarrow> if truthy v then v else JString PRODUCTION_URL)
                   \<and> ((\<exists>s. loginUrl_value p = JString s \<and> s \<noteq> [])
                       \<or> (\<exists>v. projectUrl = Some v \<and> truthy v \<and> (\<forall>s. v \<noteq> JString s)
                             \<and> loginUrl_value p = v))
               else loginUrl_value p =
                      JString (if label selection = ''Sandbox'' then SANDBOX_URL
                               else PRODUCTION_URL))
             \<and> (label selection = label (custom (orgTypes this))
                 \<or> label selection \<noteq> label (project (orgTypes this)) \<longrightarrow>
               (\<exists>s. loginUrl_value p = JString s \<and> s \<noteq> []))
             \<and> truthy (loginUrl_value p)"
  proof (cases "label selection = label (custom (orgTypes this))")
    case True
    with assms sel a(1) obtain url
      where u: "showInputBox win (customUrlInputOptions localize) = Some url"
        "loginUrl_value p = or_else (Some (JString url)) (JString PRODUCTION_URL)"
      unfolding g gather_alias_cases
      by (cases "showInputBox win (customUrlInputOptions localize)") auto
    have t: "truthy (loginUrl_value p)" unfolding u(2) by (rule or_else_truthy [OF prod])
    from u(2) have v: "loginUrl_value p = JString (if url = [] then PRODUCTION_URL else url)"
      by simp
    with sand(2) have "\<exists>s. loginUrl_value p = JString s \<and> s \<noteq> []" by simp
    with True u(1) v t show ?thesis by simp
  next
    case False
    note nc = this
    show ?thesis
    proof (cases "label selection = label (project (orgTypes this))")
      case True
      with nc assms sel a(1) obtain projectUrl
        where u: "getProjectUrl w' = Inr projectUrl"
          "loginUrl_value p = or_else projectUrl (JString PRODUCTION_URL)"
        unfolding g gather_alias_cases
        by (cases "getProjectUrl w'") auto
      have t: "truthy (loginUrl_value p)" unfolding u(2) by (rule or_else_truthy [OF prod])
      have v: "loginUrl_value p = (case projectUrl of None \<Rightarrow> JString PRODUCTION_URL
                        | Some v \<Rightarrow> if truthy v then v else JString PRODUCTION_URL)"
        unfolding u(2) by (cases projectUrl) simp_all
      have d: "(\<exists>s. loginUrl_value p = JString s \<and> s \<noteq> [])
                       \<or> (\<exists>v. projectUrl = Some v \<and> truthy v \<and> (\<forall>s. v \<noteq> JString s)
                             \<and> loginUrl_value p = v)"
      proof (cases projectUrl)
        case None
        with v sand(2) show ?thesis by simp
      next
        case (Some x)
        show ?thesis
        proof (cases "truthy x")
          case False
          with Some v sand(2) show ?thesis by simp
        next
          case tx: True
          show ?thesis
          proof (cases "\<exists>s. x = JString s")
            case True
            then obtain s where "x = JString s" by blast
            with tx Some v show ?thesis by simp
          next
            case False
            with tx Some v show ?thesis by simp
          qed
        qed
      qed
      from nc True u(1) v d t show ?thesis by auto
    next
      case False
      with nc assms sel a(1)
      have u: "loginUrl_value p =
          or_else (Some (JString (if label selection = ''Sandbox'' then SANDBOX_URL
                           else PRODUCTION_URL))) (JString PRODUCTION_URL)"
        unfolding g gather_alias_cases by auto
      have t: "truthy (loginUrl_value p)" unfolding u by (rule or_else_truthy [OF prod])
      from u sand have v: "loginUrl_value p =
          JString (if label selection = ''Sandbox'' then SANDBOX_URL else PRODUCTION_URL)"
        by simp
      with sand have "\<exists>s. loginUrl_value p = JString s \<and> s \<noteq> []" by simp
      with nc False v t show ?thesis by simp
    qed
  qed
  have ne: "alias_value p \<noteq> []"
    using a(2) by (cases "a = []") (simp_all add: DEFAULT_ALIAS_def)
  have "fst (getQuickPickItems localize w this) = Inr items"
    using q items by simp
  with ne a sel url show ?thesis by blast
qed

theorem continue_fields_nonempty_witness:
  "gather en plain_workspace plain_workspace (stub_window ''Custom'' (Some []) (Some []))
      (new_AuthParamsGatherer en) =
     (Inr (CONTINUE \<lparr>alias_value = ''vscodeOrg'',
                      loginUrl_value = JString ''https://login.salesforce.com''\<rparr>),
      new_AuthParamsGatherer en)
   \<and> alias_value \<lparr>alias_value = ''vscodeOrg'',
                    loginUrl_value = JString ''https://login.salesforce.com''\<rparr> \<noteq> []
   \<and> truthy (loginUrl_value \<lparr>alias_value = ''vscodeOrg'',
                    loginUrl_value = JString ''https://login.salesforce.com''\<rparr>)"
proof -
  let ?win = "stub_window ''Custom'' (Some []) (Some [])"
  let ?g = "new_AuthParamsGatherer en"
  let ?p = "\<lparr>alias_value = ''vscodeOrg'',
             loginUrl_value = JString ''https://login.salesforce.com''\<rparr>"
  note lab = en_labels(1)
  have g: "gather en plain_workspace plain_workspace ?win ?g = (Inr (CONTINUE ?p), ?g)"
    by (simp add: gather_after_items [OF plain_workspace_items] lab stub_window_def
        customUrlInputOptions_def aliasInputOptions_def gather_alias_def DEFAULT_ALIAS_def
        PRODUCTION_URL_def or_string_def)
  from continue_fields_nonempty [OF g]
  have "alias_value ?p \<noteq> [] \<and> truthy (loginUrl_value ?p)" by blast
  with g show ?thesis by blast
qed

text \<open>
  C9 as stated fails: with a project file whose \<^verbatim>\<open>sfdcLoginUrl\<close> is the number
  123 and the project item chosen, the login URL of the response is that number, not a
  string.
\<close>

theorem continue_fields_counterexample:
  "fst (gather en numeric_workspace numeric_workspace (picking_window 0 (Some []))
          (new_AuthParamsGatherer en)) =
     Inr (CONTINUE \<lparr>alias_value = ''vscodeOrg'', loginUrl_value = JNumber ''123''\<rparr>)"
  by (simp add: gather_def getQuickPickItems_def numeric_workspace_url Let_def
      picking_window_def en_labels new_AuthParamsGatherer_def OrgTypeItem_def en_def
      aliasInputOptions_def gather_alias_def or_string_def DEFAULT_ALIAS_def)

subsection \<open>The demo-mode executor\<close>

lemma started_events:
  "PromptLogOutForProdOrg \<notin> set (started env c)"
  "ShowSuccessfulExecution m \<notin> set (started env c)"
  "count_list (started env c) (CliCommandExecutor_execute c) = 1"
  by (simp_all add: started_def)

lemma promptLogOutForProdOrg_events:
  "\<exists>rest. fst (fst (promptLogOutForProdOrg env s)) = PromptLogOutForProdOrg # rest
     \<and> ShowSuccessfulExecution m \<notin> set rest"
  by (auto simp: promptLogOutForProdOrg_def run_def Let_def split: prod.splits sum.splits response.splits)

lemma promptLogOutForProdOrg_next_ref:
  "next_ref (snd (promptLogOutForProdOrg env s)) = next_ref s + 3"
  "gatherer_state (snd (promptLogOutForProdOrg env s)) = gatherer_state s"
  by (auto simp: promptLogOutForProdOrg_def run_def Let_def split: prod.splits sum.splits response.splits)

text \<open>
  C4. After awaiting the result of the command, \<^verbatim>\<open>ForceAuthDemoModeExecutor.execute\<close>
  parses it as JSON and branches on \<^verbatim>\<open>isProdOrg\<close>: when it holds, the
  log-out prompt \<^verbatim>\<open>promptLogOutForProdOrg\<close> is invoked and the success
  notification is not shown; otherwise the success notification is shown and the prompt
  is not invoked. Either of the two happens only once the result has been obtained,
  parsed and judged, and comes after it in the order of events.
\<close>

theorem demo_mode_execute_branches:
  "(getCmdResult env (build' data) = Inr result
      \<and> JSON_parse_result env result = Inr parsed
      \<and> isProdOrg env parsed = Inr isProd \<longrightarrow>
      (if isProd then
         (\<exists>rest. fst (fst (ForceAuthDemoModeExecutor_execute env build' data s)) =
             started env (build' data) @
             GetCmdResult (Inr result) # PromptLogOutForProdOrg # rest
           \<and> PromptLogOutForProdOrg # rest = fst (fst (promptLogOutForProdOrg env s)))
         \<and> snd (fst (ForceAuthDemoModeExecutor_execute env build' data s)) =
             snd (fst (promptLogOutForProdOrg env s))
         \<and> ShowSuccessfulExecution (toString env (build' data)) \<notin>
             set (fst (fst (ForceAuthDemoModeExecutor_execute env build' data s)))
       else
         ForceAuthDemoModeExecutor_execute env build' data s =
           ((started env (build' data) @
             [GetCmdResult (Inr result),
              ShowSuccessfulExecution (toString env (build' data))],
             showSuccessfulExecution env (toString env (build' data))), s)
         \<and> PromptLogOutForProdOrg \<notin>
             set (fst (fst (ForceAuthDemoModeExecutor_execute env build' data s)))))
   \<and> (PromptLogOutForProdOrg \<in>
          set (fst (fst (ForceAuthDemoModeExecutor_execute env build' data s)))
        \<or> ShowSuccessfulExecution m \<in>
          set (fst (fst (ForceAuthDemoModeExecutor_execute env build' data s))) \<longrightarrow>
        (\<exists>result parsed isProd post.
           getCmdResult env (build' data) = Inr result
           \<and> JSON_parse_result env result = Inr parsed
           \<and> isProdOrg env parsed = Inr isProd
           \<and> fst (fst (ForceAuthDemoModeExecutor_execute env build' data s)) =
               started env (build' data) @ GetCmdResult (Inr result) # post
           \<and> (PromptLogOutForProdOrg \<in> set post \<or> ShowSuccessfulExecution m \<in> set post)))"
proof (intro conjI impI)
  let ?E = "ForceAuthDemoModeExecutor_execute env build' data s"
  assume "getCmdResult env (build' data) = Inr result
      \<and> JSON_parse_result env result = Inr parsed
      \<and> isProdOrg env parsed = Inr isProd"
  then have h: "getCmdResult env (build' data) = Inr result"
    "JSON_parse_result env result = Inr parsed" "isProdOrg env parsed = Inr isProd"
    by simp_all
  show "if isProd then
         (\<exists>rest. fst (fst ?E) =
             started env (build' data) @
             GetCmdResult (Inr result) # PromptLogOutForProdOrg # rest
           \<and> PromptLogOutForProdOrg # rest = fst (fst (promptLogOutForProdOrg env s)))
         \<and> snd (fst ?E) = snd (fst (promptLogOutForProdOrg env s))
         \<and> ShowSuccessfulExecution (toString env (build' data)) \<notin> set (fst (fst ?E))
       else
         ?E =
           ((started env (build' data) @
             [GetCmdResult (Inr result),
              ShowSuccessfulExecution (toString env (build' data))],
             showSuccessfulExecution env (toString env (build' data))), s)
         \<and> PromptLogOutForProdOrg \<notin> set (fst (fst ?E))"
  proof (cases isProd)
    case True
    obtain rest where rest: "fst (fst (promptLogOutForProdOrg env s)) = PromptLogOutForProdOrg # rest"
      "ShowSuccessfulExecution (toString env (build' data)) \<notin> set rest"
      using promptLogOutForProdOrg_events by blast
    have E: "fst (fst ?E) = started env (build' data) @ GetCmdResult (Inr result) # PromptLogOutForProdOrg # rest"
      "snd (fst ?E) = snd (fst (promptLogOutForProdOrg env s))"
      using h True rest(1)
      by (simp_all add: ForceAuthDemoModeExecutor_execute_def Let_def case_prod_unfold)
    from E rest True show ?thesis by (simp add: started_events)
  next
    case False
    with h show ?thesis
      by (simp add: ForceAuthDemoModeExecutor_execute_def Let_def started_events)
  qed
next
  let ?E = "ForceAuthDemoModeExecutor_execute env build' data s"
  assume a: "PromptLogOutForProdOrg \<in> set (fst (fst ?E))
        \<or> ShowSuccessfulExecution m \<in> set (fst (fst ?E))"
  obtain result where r: "getCmdResult env (build' data) = Inr result"
    using a by (cases "getCmdResult env (build' data)")
      (auto simp: ForceAuthDemoModeExecutor_execute_def Let_def started_events)
  obtain parsed where p: "JSON_parse_result env result = Inr parsed"
    using a r by (cases "JSON_parse_result env result")
      (auto simp: ForceAuthDemoModeExecutor_execute_def Let_def started_events)
  obtain isProd where i: "isProdOrg env parsed = Inr isProd"
    using a r p by (cases "isProdOrg env parsed")
      (auto simp: ForceAuthDemoModeExecutor_execute_def Let_def started_events)
  obtain post where post: "fst (fst ?E) = started env (build' data) @ GetCmdResult (Inr result) # post"
    using r p i
    by (cases isProd)
      (auto simp: ForceAuthDemoModeExecutor_execute_def Let_def case_prod_unfold)
  with a have "PromptLogOutForProdOrg \<in> set post \<or> ShowSuccessfulExecution m \<in> set post"
    by (auto simp: started_events)
  with r p i post
  show "\<exists>result parsed isProd post.
           getCmdResult env (build' data) = Inr result
           \<and> JSON_parse_result env result = Inr parsed
           \<and> isProdOrg env parsed = Inr isProd
           \<and> fst (fst ?E) = started env (build' data) @ GetCmdResult (Inr result) # post
           \<and> (PromptLogOutForProdOrg \<in> set post \<or> ShowSuccessfulExecution m \<in> set post)"
    by blast
qed

text \<open>
  C5. \<^verbatim>\<open>ForceAuthDemoModeExecutor.execute\<close> handles failure by rejecting, and
  nothing more: an error raised while the result is obtained, parsed or judged rejects
  the promise with that error, after the one start of the command and with neither a
  success notification nor a prompt; and whenever the promise is rejected, the error is
  the one raised by the step that failed.
\<close>

theorem demo_mode_execute_rejects:
  "(getCmdResult env (build' data) = Inl err \<longrightarrow>
      ForceAuthDemoModeExecutor_execute env build' data s =
        ((started env (build' data) @ [GetCmdResult (Inl err)], Inl err), s))
   \<and> (getCmdResult env (build' data) = Inr result
        \<and> JSON_parse_result env result = Inl err \<longrightarrow>
      ForceAuthDemoModeExecutor_execute env build' data s =
        ((started env (build' data) @ [GetCmdResult (Inr result)], Inl err), s))
   \<and> (getCmdResult env (build' data) = Inr result
        \<and> JSON_parse_result env result = Inr parsed
        \<and> isProdOrg env parsed = Inl err \<longrightarrow>
      ForceAuthDemoModeExecutor_execute env build' data s =
        ((started env (build' data) @ [GetCmdResult (Inr result)], Inl err), s))
   \<and> (\<forall>x. ShowSuccessfulExecution m \<notin> set (started env (build' data) @ [GetCmdResult x])
          \<and> PromptLogOutForProdOrg \<notin> set (started env (build' data) @ [GetCmdResult x])
          \<and> count_list (started env (build' data) @ [GetCmdResult x])
               (CliCommandExecutor_execute (build' data)) = 1)
   \<and> (snd (fst (ForceAuthDemoModeExecutor_execute env build' data s)) = Inl err \<longrightarrow>
        getCmdResult env (build' data) = Inl err
        \<or> (\<exists>result. getCmdResult env (build' data) = Inr result
              \<and> (JSON_parse_result env result = Inl err
                  \<or> (\<exists>parsed. JSON_parse_result env result = Inr parsed
                        \<and> (isProdOrg env parsed = Inl err
                            \<or> (isProdOrg env parsed = Inr True
                                \<and> snd (fst (promptLogOutForProdOrg env s)) = Inl err)
                            \<or> (isProdOrg env parsed = Inr False
                                \<and> showSuccessfulExecution env (toString env (build' data)) =
                                    Inl err))))))"
proof (intro conjI impI allI)
  show "count_list (started env (build' data) @ [GetCmdResult x])
               (CliCommandExecutor_execute (build' data)) = 1" for x
    by (simp add: started_def)
next
  let ?E = "ForceAuthDemoModeExecutor_execute env build' data s"
  assume e: "snd (fst ?E) = Inl err"
  show "getCmdResult env (build' data) = Inl err
        \<or> (\<exists>result. getCmdResult env (build' data) = Inr result
              \<and> (JSON_parse_result env result = Inl err
                  \<or> (\<exists>parsed. JSON_parse_result env result = Inr parsed
                        \<and> (isProdOrg env parsed = Inl err
                            \<or> (isProdOrg env parsed = Inr True
                                \<and> snd (fst (promptLogOutForProdOrg env s)) = Inl err)
                            \<or> (isProdOrg env parsed = Inr False
                                \<and> showSuccessfulExecution env (toString env (build' data)) =
                                    Inl err)))))"
  proof (cases "getCmdResult env (build' data)")
    case (Inl a)
    with e show ?thesis by (simp add: ForceAuthDemoModeExecutor_execute_def)
  next
    case r: (Inr result)
    show ?thesis
    proof (cases "JSON_parse_result env result")
      case (Inl a)
      with e r show ?thesis by (simp add: ForceAuthDemoModeExecutor_execute_def)
    next
      case p: (Inr parsed)
      show ?thesis
      proof (cases "isProdOrg env parsed")
        case (Inl a)
        with e r p show ?thesis by (simp add: ForceAuthDemoModeExecutor_execute_def)
      next
        case (Inr isProd)
        with e r p show ?thesis
          by (cases isProd)
            (simp_all add: ForceAuthDemoModeExecutor_execute_def Let_def case_prod_unfold)
      qed
    qed
  qed
qed (simp_all add: ForceAuthDemoModeExecutor_execute_def started_events)

theorem demo_mode_execute_branches_witness:
  "getCmdResult (cli_with (Inr ''{}'') (Inr ''org'') (Inr True))
      (ForceAuthWebLoginDemoModeExecutor_build en
         \<lparr>alias' = ''testAlias'', loginUrl = ''https://my.testdomain.salesforce.com''\<rparr>) =
     Inr ''{}''
   \<and> PromptLogOutForProdOrg \<in> set (fst (fst
        (ForceAuthDemoModeExecutor_execute (cli_with (Inr ''{}'') (Inr ''org'') (Inr True))
          (ForceAuthWebLoginDemoModeExecutor_build en)
          \<lparr>alias' = ''testAlias'', loginUrl = ''https://my.testdomain.salesforce.com''\<rparr>
          (load_module en))))
   \<and> ShowSuccessfulExecution ''force_auth_web_login_authorize_org_text'' \<notin> set (fst (fst
        (ForceAuthDemoModeExecutor_execute (cli_with (Inr ''{}'') (Inr ''org'') (Inr True))
          (ForceAuthWebLoginDemoModeExecutor_build en)
          \<lparr>alias' = ''testAlias'', loginUrl = ''https://my.testdomain.salesforce.com''\<rparr>
          (load_module en))))
   \<and> ShowSuccessfulExecution ''force_auth_web_login_authorize_org_text'' \<in> set (fst (fst
        (ForceAuthDemoModeExecutor_execute (cli_with (Inr ''{}'') (Inr ''org'') (Inr False))
          (ForceAuthWebLoginDemoModeExecutor_build en)
          \<lparr>alias' = ''testAlias'', loginUrl = ''https://my.testdomain.salesforce.com''\<rparr>
          (load_module en))))"
proof -
  let ?p = "\<lparr>alias' = ''testAlias'', loginUrl = ''https://my.testdomain.salesforce.com''\<rparr>"
  let ?b = "ForceAuthWebLoginDemoModeExecutor_build en"
  let ?T = "cli_with (Inr ''{}'') (Inr ''org'') (Inr True)"
  let ?F = "cli_with (Inr ''{}'') (Inr ''org'') (Inr False)"
  have d: "description (?b ?p) = Some ''force_auth_web_login_authorize_org_text''"
    by (simp add: ForceAuthWebLoginDemoModeExecutor_build_def build_def withLogName_def
        withJson_def withArg_def withFlag_def withDescription_def SfdxCommandBuilder_def en_def)
  have t: "getCmdResult ?T (?b ?p) = Inr ''{}''" "JSON_parse_result ?T ''{}'' = Inr ''org''"
    "isProdOrg ?T ''org'' = Inr True"
    "toString ?T (?b ?p) = ''force_auth_web_login_authorize_org_text''"
    by (simp_all add: cli_with_def d)
  have f: "getCmdResult ?F (?b ?p) = Inr ''{}''" "JSON_parse_result ?F ''{}'' = Inr ''org''"
    "isProdOrg ?F ''org'' = Inr False"
    "toString ?F (?b ?p) = ''force_auth_web_login_authorize_org_text''"
    by (simp_all add: cli_with_def d)
  let ?eT = "fst (fst (ForceAuthDemoModeExecutor_execute ?T ?b ?p (load_module en)))"
  let ?eF = "fst (fst (ForceAuthDemoModeExecutor_execute ?F ?b ?p (load_module en)))"
  from demo_mode_execute_branches
    [of ?T ?b ?p "''{}''" "''org''" True "load_module en", THEN conjunct1, THEN mp,
      OF conjI [OF t(1) conjI [OF t(2) t(3)]], unfolded if_True]
  obtain rest where
    "?eT = started ?T (?b ?p) @ GetCmdResult (Inr ''{}'') # PromptLogOutForProdOrg # rest"
    and n: "ShowSuccessfulExecution (toString ?T (?b ?p)) \<notin> set ?eT"
    by blast
  then have 1: "PromptLogOutForProdOrg \<in> set ?eT" by simp
  from n have 2: "ShowSuccessfulExecution ''force_auth_web_login_authorize_org_text'' \<notin> set ?eT"
    unfolding t(4) .
  from demo_mode_execute_branches
    [of ?F ?b ?p "''{}''" "''org''" False "load_module en", THEN conjunct1, THEN mp,
      OF conjI [OF f(1) conjI [OF f(2) f(3)]], unfolded if_False]
  have "ForceAuthDemoModeExecutor_execute ?F ?b ?p (load_module en) =
           ((started ?F (?b ?p) @
             [GetCmdResult (Inr ''{}''), ShowSuccessfulExecution (toString ?F (?b ?p))],
             showSuccessfulExecution ?F (toString ?F (?b ?p))), load_module en)"
    by blast
  then have "ShowSuccessfulExecution (toString ?F (?b ?p)) \<in> set ?eF" by simp
  then have 3: "ShowSuccessfulExecution ''force_auth_web_login_authorize_org_text'' \<in> set ?eF"
    unfolding f(4) .
  from t(1) 1 2 3 show ?thesis by blast
qed

theorem demo_mode_execute_rejects_witness:
  "JSON_parse_result
      (cli_with (Inr ''ERROR'') (Inl (SyntaxError ''Unexpected token E'') :: js_error + string)
         (Inr False)) ''ERROR'' = Inl (SyntaxError ''Unexpected token E'')
   \<and> snd (fst (ForceAuthDemoModeExecutor_execute
        (cli_with (Inr ''ERROR'') (Inl (SyntaxError ''Unexpected token E'') :: js_error + string)
           (Inr False))
        (ForceAuthWebLoginDemoModeExecutor_build en)
        \<lparr>alias' = ''testAlias'', loginUrl = ''https://my.testdomain.salesforce.com''\<rparr>
        (load_module en))) = Inl (SyntaxError ''Unexpected token E'')
   \<and> ShowSuccessfulExecution ''force_auth_web_login_authorize_org_text'' \<notin> set (fst (fst
        (ForceAuthDemoModeExecutor_execute
        (cli_with (Inr ''ERROR'') (Inl (SyntaxError ''Unexpected token E'') :: js_error + string)
           (Inr False))
        (ForceAuthWebLoginDemoModeExecutor_build en)
        \<lparr>alias' = ''testAlias'', loginUrl = ''https://my.testdomain.salesforce.com''\<rparr>
        (load_module en))))
   \<and> snd (fst (ForceAuthDemoModeExecutor_execute
        (cli_with (Inl (Error ''exit code 1'')) (Inr ''org'') (Inr False))
        (ForceAuthWebLoginDemoModeExecutor_build en)
        \<lparr>alias' = ''testAlias'', loginUrl = ''https://my.testdomain.salesforce.com''\<rparr>
        (load_module en))) = Inl (Error ''exit code 1'')
   \<and> snd (fst (ForceAuthDemoModeExecutor_execute
        (cli_with (Inr ''{}'') (Inr ''org'') (Inl (TypeError ''Cannot read property instanceUrl of undefined'')))
        (ForceAuthWebLoginDemoModeExecutor_build en)
        \<lparr>alias' = ''testAlias'', loginUrl = ''https://my.testdomain.salesforce.com''\<rparr>
        (load_module en))) =
       Inl (TypeError ''Cannot read property instanceUrl of undefined'')"
proof -
  let ?p = "\<lparr>alias' = ''testAlias'', loginUrl = ''https://my.testdomain.salesforce.com''\<rparr>"
  let ?b = "ForceAuthWebLoginDemoModeExecutor_build en"
  let ?E = "cli_with (Inr ''ERROR'') (Inl (SyntaxError ''Unexpected token E'') :: js_error + string)
         (Inr False)"
  let ?R = "cli_with (Inl (Error ''exit code 1'')) (Inr ''org'') (Inr False)"
  let ?T = "cli_with (Inr ''{}'') (Inr ''org'')
         (Inl (TypeError ''Cannot read property instanceUrl of undefined''))"
  have e: "getCmdResult ?E (?b ?p) = Inr ''ERROR''"
    "JSON_parse_result ?E ''ERROR'' = Inl (SyntaxError ''Unexpected token E'')"
    by (simp_all add: cli_with_def)
  have r: "getCmdResult ?R (?b ?p) = Inl (Error ''exit code 1'')"
    by (simp add: cli_with_def)
  have t: "getCmdResult ?T (?b ?p) = Inr ''{}''" "JSON_parse_result ?T ''{}'' = Inr ''org''"
    "isProdOrg ?T ''org'' = Inl (TypeError ''Cannot read property instanceUrl of undefined'')"
    by (simp_all add: cli_with_def)
  note E = demo_mode_execute_rejects
    [of ?E ?b ?p "SyntaxError ''Unexpected token E''" "load_module en" "''ERROR''" _
      "''force_auth_web_login_authorize_org_text''"]
  from E e
  have 1: "ForceAuthDemoModeExecutor_execute ?E ?b ?p (load_module en) =
        ((started ?E (?b ?p) @ [GetCmdResult (Inr ''ERROR'')],
          Inl (SyntaxError ''Unexpected token E'')), load_module en)"
    by blast
  from E have "ShowSuccessfulExecution ''force_auth_web_login_authorize_org_text'' \<notin>
      set (started ?E (?b ?p) @ [GetCmdResult (Inr ''ERROR'')])"
    by blast
  with 1 have 2: "ShowSuccessfulExecution ''force_auth_web_login_authorize_org_text'' \<notin>
      set (fst (fst (ForceAuthDemoModeExecutor_execute ?E ?b ?p (load_module en))))"
    by simp
  from demo_mode_execute_rejects [of ?R ?b ?p "Error ''exit code 1''" "load_module en"] r
  have 3: "ForceAuthDemoModeExecutor_execute ?R ?b ?p (load_module en) =
        ((started ?R (?b ?p) @ [GetCmdResult (Inl (Error ''exit code 1''))],
          Inl (Error ''exit code 1'')), load_module en)"
    by blast
  from demo_mode_execute_rejects
    [of ?T ?b ?p "TypeError ''Cannot read property instanceUrl of undefined''" "load_module en"
      "''{}''" "''org''"] t
  have 4: "ForceAuthDemoModeExecutor_execute ?T ?b ?p (load_module en) =
        ((started ?T (?b ?p) @ [GetCmdResult (Inr ''{}'')],
          Inl (TypeError ''Cannot read property instanceUrl of undefined'')), load_module en)"
    by blast
  from e(2) 1 2 3 4 show ?thesis by simp
qed

subsection \<open>The commandlet\<close>

lemma commandlet_of_fields:
  "checker_ref (prechecker (fst (commandlet_of wd s))) = workspaceChecker"
  "gatherer_ref (gatherer (fst (commandlet_of wd s))) = parameterGatherer"
  "executor_ref (executor (fst (commandlet_of wd s))) = next_ref s"
  "checker_check (prechecker (fst (commandlet_of wd s))) t = SfdxWorkspaceChecker_check wd"
  "gatherer_gather (gatherer (fst (commandlet_of wd s))) t =
     (fst (gather (messages wd) (workspace_at_items wd) (workspace_at_choice wd)
             (vscode_window wd) (gatherer_state t)),
      t\<lparr>gatherer_state := snd (gather (messages wd) (workspace_at_items wd)
             (workspace_at_choice wd) (vscode_window wd) (gatherer_state t))\<rparr>)"
  "next_ref (snd (commandlet_of wd s)) = next_ref s + 1"
  "gatherer_state (snd (commandlet_of wd s)) = gatherer_state s"
  by (simp_all add: commandlet_of_def createExecutor_def case_prod_unfold)

lemma forceAuthWebLogin_run:
  "forceAuthWebLogin wd s = run (fst (commandlet_of wd s)) (snd (commandlet_of wd s))"
  by (simp add: forceAuthWebLogin_def case_prod_unfold)

lemma run_unchecked:
  "\<not> checker_check (prechecker c) s \<Longrightarrow>
     run c s = (([PrecheckerCheck (checker_ref (prechecker c)) False], Inr ()), s)"
  by (simp add: run_def)

lemma run_rejected:
  "checker_check (prechecker c) s \<Longrightarrow> gatherer_gather (gatherer c) s = (Inl e, s1) \<Longrightarrow>
     run c s = (([PrecheckerCheck (checker_ref (prechecker c)) True,
                  GathererGather (gatherer_ref (gatherer c)) (Inl e)], Inl e), s1)"
  by (simp add: run_def)

lemma run_cancelled:
  "checker_check (prechecker c) s \<Longrightarrow> gatherer_gather (gatherer c) s = (Inr CANCEL, s1) \<Longrightarrow>
     run c s = (([PrecheckerCheck (checker_ref (prechecker c)) True,
                  GathererGather (gatherer_ref (gatherer c)) (Inr ''CANCEL'')], Inr ()), s1)"
  by (simp add: run_def)

lemma run_continued:
  "checker_check (prechecker c) s \<Longrightarrow> gatherer_gather (gatherer c) s = (Inr (CONTINUE p), s1) \<Longrightarrow>
     run c s =
      (([PrecheckerCheck (checker_ref (prechecker c)) True,
         GathererGather (gatherer_ref (gatherer c)) (Inr ''CONTINUE''),
         ExecutorExecute (executor_ref (executor c))] @
        fst (fst (executor_execute (executor c) p s1)),
        snd (fst (executor_execute (executor c) p s1))),
       snd (executor_execute (executor c) p s1))"
  by (simp add: run_def case_prod_unfold)

text \<open>
  C6. \<^verbatim>\<open>forceAuthWebLogin\<close> runs its three stages in order: the workspace
  check, then the gatherer, then the executor. The executor that \<^verbatim>\<open>createExecutor\<close>
  chose runs only when the check has passed and the gatherer has returned a continue
  response, and then as the third event, after the other two; when the check fails or the
  gatherer cancels or rejects, the run ends there.
\<close>

theorem executor_runs_last:
  "(ExecutorExecute (executor_ref (executor (fst (commandlet_of wd s))))
      \<in> set (fst (fst (forceAuthWebLogin wd s))) \<longrightarrow>
      SfdxWorkspaceChecker_check wd
      \<and> (\<exists>p. fst (gather (messages wd) (workspace_at_items wd) (workspace_at_choice wd)
                   (vscode_window wd) (gatherer_state s)) = Inr (CONTINUE p))
      \<and> (\<exists>rest. fst (fst (forceAuthWebLogin wd s)) =
            [PrecheckerCheck workspaceChecker True,
             GathererGather parameterGatherer (Inr ''CONTINUE''),
             ExecutorExecute (executor_ref (executor (fst (commandlet_of wd s))))] @ rest))
   \<and> (\<not> SfdxWorkspaceChecker_check wd \<longrightarrow>
        fst (forceAuthWebLogin wd s) = ([PrecheckerCheck workspaceChecker False], Inr ()))
   \<and> (SfdxWorkspaceChecker_check wd
        \<and> fst (gather (messages wd) (workspace_at_items wd) (workspace_at_choice wd)
                 (vscode_window wd) (gatherer_state s)) = Inl e \<longrightarrow>
        fst (forceAuthWebLogin wd s) =
          ([PrecheckerCheck workspaceChecker True,
            GathererGather parameterGatherer (Inl e)], Inl e))
   \<and> (SfdxWorkspaceChecker_check wd
        \<and> fst (gather (messages wd) (workspace_at_items wd) (workspace_at_choice wd)
                 (vscode_window wd) (gatherer_state s)) = Inr CANCEL \<longrightarrow>
        fst (forceAuthWebLogin wd s) =
          ([PrecheckerCheck workspaceChecker True,
            GathererGather parameterGatherer (Inr ''CANCEL'')], Inr ()))
   \<and> (SfdxWorkspaceChecker_check wd
        \<and> fst (gather (messages wd) (workspace_at_items wd) (workspace_at_choice wd)
                 (vscode_window wd) (gatherer_state s)) = Inr (CONTINUE p) \<longrightarrow>
        (\<exists>rest. fst (fst (forceAuthWebLogin wd s)) =
            [PrecheckerCheck workspaceChecker True,
             GathererGather parameterGatherer (Inr ''CONTINUE''),
             ExecutorExecute (executor_ref (executor (fst (commandlet_of wd s))))] @ rest))"
proof -
  let ?c = "fst (commandlet_of wd s)"
  let ?s = "snd (commandlet_of wd s)"
  let ?g = "gather (messages wd) (workspace_at_items wd) (workspace_at_choice wd)
                 (vscode_window wd) (gatherer_state s)"
  let ?x = "ExecutorExecute (executor_ref (executor ?c))"
  let ?evs = "fst (fst (forceAuthWebLogin wd s))"
  note f = commandlet_of_fields
  have gg: "gatherer_gather (gatherer ?c) ?s = (fst ?g, ?s\<lparr>gatherer_state := snd ?g\<rparr>)"
    by (simp add: f)
  have no: "fst (forceAuthWebLogin wd s) = ([PrecheckerCheck workspaceChecker False], Inr ())"
    if "\<not> SfdxWorkspaceChecker_check wd"
    using that run_unchecked [of ?c ?s] by (simp add: forceAuthWebLogin_run f)
  have rej: "fst (forceAuthWebLogin wd s) =
          ([PrecheckerCheck workspaceChecker True, GathererGather parameterGatherer (Inl e)], Inl e)"
    if "SfdxWorkspaceChecker_check wd" "fst ?g = Inl e" for e
    using that run_rejected [of ?c ?s e] gg by (simp add: forceAuthWebLogin_run f)
  have can: "fst (forceAuthWebLogin wd s) =
          ([PrecheckerCheck workspaceChecker True,
            GathererGather parameterGatherer (Inr ''CANCEL'')], Inr ())"
    if "SfdxWorkspaceChecker_check wd" "fst ?g = Inr CANCEL"
    using that run_cancelled [of ?c ?s] gg by (simp add: forceAuthWebLogin_run f)
  have con: "\<exists>rest. ?evs =
            [PrecheckerCheck workspaceChecker True,
             GathererGather parameterGatherer (Inr ''CONTINUE''), ?x] @ rest"
    if "SfdxWorkspaceChecker_check wd" "fst ?g = Inr (CONTINUE p)" for p
    using that run_continued [of ?c ?s p] gg by (simp add: forceAuthWebLogin_run f)
  have only: "SfdxWorkspaceChecker_check wd
      \<and> (\<exists>p. fst ?g = Inr (CONTINUE p))
      \<and> (\<exists>rest. ?evs =
            [PrecheckerCheck workspaceChecker True,
             GathererGather parameterGatherer (Inr ''CONTINUE''), ?x] @ rest)"
    if x: "?x \<in> set ?evs"
  proof -
    have c: "SfdxWorkspaceChecker_check wd"
      using x no by (cases "SfdxWorkspaceChecker_check wd") auto
    obtain p where p: "fst ?g = Inr (CONTINUE p)"
    proof (cases "fst ?g")
      case (Inl e)
      with x rej [OF c] show ?thesis by auto
    next
      case (Inr r)
      with x can [OF c] that show ?thesis by (cases r) auto
    qed
    with c con show ?thesis by blast
  qed
  from only no rej can con show ?thesis by blast
qed

theorem executor_runs_last_witness:
  "ExecutorExecute 2 \<in> set (fst (fst (forceAuthWebLogin
       (demo_world (cli_with (Inr ''{}'') (Inr ''org'') (Inr False))) (load_module en))))
   \<and> SfdxWorkspaceChecker_check (demo_world (cli_with (Inr ''{}'') (Inr ''org'') (Inr False)))
   \<and> fst (gather en plain_workspace plain_workspace
            (stub_window ''Production'' None (Some ''testAlias''))
            (new_AuthParamsGatherer en)) =
       Inr (CONTINUE \<lparr>alias_value = ''testAlias'',
                       loginUrl_value = JString ''https://login.salesforce.com''\<rparr>)
   \<and> take 3 (fst (fst (forceAuthWebLogin
       (demo_world (cli_with (Inr ''{}'') (Inr ''org'') (Inr False))) (load_module en)))) =
       [PrecheckerCheck 0 True, GathererGather 1 (Inr ''CONTINUE''), ExecutorExecute 2]"
proof -
  let ?W = "demo_world (cli_with (Inr ''{}'') (Inr ''org'') (Inr False))"
  let ?S = "load_module en"
  let ?p = "\<lparr>alias_value = ''testAlias'',
             loginUrl_value = JString ''https://login.salesforce.com''\<rparr>"
  note lab = en_labels
  have g: "fst (gather en plain_workspace plain_workspace
            (stub_window ''Production'' None (Some ''testAlias''))
            (new_AuthParamsGatherer en)) = Inr (CONTINUE ?p)"
    by (simp add: gather_after_items [OF plain_workspace_items] lab stub_window_def
        aliasInputOptions_def gather_alias_def PRODUCTION_URL_def or_string_def)
  have w: "SfdxWorkspaceChecker_check ?W" "messages ?W = en"
    "workspace_at_items ?W = plain_workspace" "workspace_at_choice ?W = plain_workspace"
    "vscode_window ?W = stub_window ''Production'' None (Some ''testAlias'')"
    "gatherer_state ?S = new_AuthParamsGatherer en" "next_ref ?S = 2"
    by (simp_all add: demo_world_def load_module_def)
  have x: "executor_ref (executor (fst (commandlet_of ?W ?S))) = 2"
    by (simp add: commandlet_of_fields w)
  note t = executor_runs_last [of ?W ?S _ ?p, unfolded w x]
  from t g w(1) obtain rest where rest: "fst (fst (forceAuthWebLogin ?W ?S)) =
     [PrecheckerCheck workspaceChecker True, GathererGather parameterGatherer (Inr ''CONTINUE''),
      ExecutorExecute 2] @ rest"
    by blast
  then have 1: "ExecutorExecute 2 \<in> set (fst (fst (forceAuthWebLogin ?W ?S)))" by simp
  from rest have 2: "take 3 (fst (fst (forceAuthWebLogin ?W ?S))) =
     [PrecheckerCheck 0 True, GathererGather 1 (Inr ''CONTINUE''), ExecutorExecute 2]"
    by (simp add: workspaceChecker_def parameterGatherer_def)
  from 1 2 g w(1) show ?thesis by blast
qed

subsection \<open>State across calls\<close>

lemma gather_snd: "snd (gather l w w2 win g) = snd (getQuickPickItems l w g)"
  by (cases "getQuickPickItems l w g")
    (auto simp: gather_def Let_def split: sum.splits option.splits)

lemma getQuickPickItems_snd:
  "snd (getQuickPickItems l w g) = g
   \<or> (\<exists>url. getProjectUrl w = Inr (Some url) \<and> truthy url
        \<and> snd (getQuickPickItems l w g) =
            g\<lparr>orgTypes := (orgTypes g)\<lparr>project := (project (orgTypes g))
                \<lparr>detail := Some (l ''auth_project_detail'' @ '' ('' @ ToString url @
                                  '')'')\<rparr>\<rparr>\<rparr>)"
  by (auto simp: getQuickPickItems_def Let_def split: sum.splits option.splits)

lemma execute_state:
  "gatherer_state (snd (ForceAuthDemoModeExecutor_execute env b p s)) = gatherer_state s"
  "next_ref s \<le> next_ref (snd (ForceAuthDemoModeExecutor_execute env b p s))"
  by (auto simp: ForceAuthDemoModeExecutor_execute_def Let_def case_prod_unfold
      promptLogOutForProdOrg_next_ref split: sum.splits)

lemma createExecutor_state:
  "gatherer_state (snd (executor_execute (fst (createExecutor wd s)) p t)) = gatherer_state t"
  "next_ref t \<le> next_ref (snd (executor_execute (fst (createExecutor wd s)) p t))"
  by (simp_all add: createExecutor_def execute_state SfdxCommandletExecutor_execute_def)

lemma commandlet_of_executor:
  "executor_execute (executor (fst (commandlet_of wd s))) p =
     executor_execute (fst (createExecutor wd s)) (declared p)"
  by (simp add: commandlet_of_def case_prod_unfold)

lemma forceAuthWebLogin_state:
  "gatherer_state (snd (forceAuthWebLogin wd s)) =
     (if SfdxWorkspaceChecker_check wd
      then snd (getQuickPickItems (messages wd) (workspace_at_items wd) (gatherer_state s))
      else gatherer_state s)"
  "next_ref s < next_ref (snd (forceAuthWebLogin wd s))"
proof -
  let ?c = "fst (commandlet_of wd s)"
  let ?s = "snd (commandlet_of wd s)"
  let ?g = "gather (messages wd) (workspace_at_items wd) (workspace_at_choice wd)
                 (vscode_window wd) (gatherer_state s)"
  note f = commandlet_of_fields
  have gg: "gatherer_gather (gatherer ?c) ?s = (fst ?g, ?s\<lparr>gatherer_state := snd ?g\<rparr>)"
    by (simp add: f)
  have "gatherer_state (snd (forceAuthWebLogin wd s)) =
     (if SfdxWorkspaceChecker_check wd
      then snd (getQuickPickItems (messages wd) (workspace_at_items wd) (gatherer_state s))
      else gatherer_state s)
    \<and> next_ref s < next_ref (snd (forceAuthWebLogin wd s))"
  proof (cases "SfdxWorkspaceChecker_check wd")
    case False
    then show ?thesis
      using run_unchecked [of ?c ?s] by (simp add: forceAuthWebLogin_run f)
  next
    case True
    show ?thesis
    proof (cases "fst ?g")
      case (Inl e)
      with True run_rejected [of ?c ?s e] gg show ?thesis
        by (simp add: forceAuthWebLogin_run f gather_snd)
    next
      case (Inr r)
      show ?thesis
      proof (cases r)
        case CANCEL
        with Inr True run_cancelled [of ?c ?s] gg show ?thesis
          by (simp add: forceAuthWebLogin_run f gather_snd)
      next
        case (CONTINUE p)
        let ?t = "?s\<lparr>gatherer_state := snd ?g\<rparr>"
        from CONTINUE Inr True run_continued [of ?c ?s p] gg
        have "snd (forceAuthWebLogin wd s) = snd (executor_execute (executor ?c) p ?t)"
          by (simp add: forceAuthWebLogin_run f)
        moreover have "gatherer_state (snd (executor_execute (executor ?c) p ?t)) = snd ?g"
          by (simp add: commandlet_of_executor createExecutor_state)
        moreover have "next_ref ?t \<le> next_ref (snd (executor_execute (executor ?c) p ?t))"
          unfolding commandlet_of_executor by (rule createExecutor_state)
        moreover have "next_ref ?t = next_ref s + 1" by (simp add: f)
        ultimately show ?thesis using True by (simp add: gather_snd)
      qed
    qed
  qed
  then show "gatherer_state (snd (forceAuthWebLogin wd s)) =
     (if SfdxWorkspaceChecker_check wd
      then snd (getQuickPickItems (messages wd) (workspace_at_items wd) (gatherer_state s))
      else gatherer_state s)"
    and "next_ref s < next_ref (snd (forceAuthWebLogin wd s))" by simp_all
qed

text \<open>
  C7. Across calls of \<^verbatim>\<open>forceAuthWebLogin\<close> only the module's own objects are
  shared: every call uses the module's workspace checker and parameter gatherer, and an
  executor created for that call, which is none of the objects of an earlier call. The
  second call's gatherer works on the state the first call left. The only state a
  gatherer operation changes is the gatherer's own: \<^verbatim>\<open>gather\<close> changes what
  \<^verbatim>\<open>getQuickPickItems\<close> changes, which is at most the detail of the project item;
  the production, sandbox and custom items and the project label stay as they are.
\<close>

theorem module_state_shared:
  assumes "2 \<le> next_ref s"
  shows "checker_ref (prechecker (fst (commandlet_of wd s))) = workspaceChecker
     \<and> checker_ref (prechecker (fst (commandlet_of wd2 (snd (forceAuthWebLogin wd s))))) =
         workspaceChecker
     \<and> gatherer_ref (gatherer (fst (commandlet_of wd s))) = parameterGatherer
     \<and> gatherer_ref (gatherer (fst (commandlet_of wd2 (snd (forceAuthWebLogin wd s))))) =
         parameterGatherer
     \<and> executor_ref (executor (fst (commandlet_of wd s))) \<noteq>
         executor_ref (executor (fst (commandlet_of wd2 (snd (forceAuthWebLogin wd s)))))
     \<and> executor_ref (executor (fst (commandlet_of wd s))) \<noteq> workspaceChecker
     \<and> executor_ref (executor (fst (commandlet_of wd s))) \<noteq> parameterGatherer
     \<and> 2 \<le> next_ref (snd (forceAuthWebLogin wd s))
     \<and> gatherer_state (snd (forceAuthWebLogin wd s)) =
         (if SfdxWorkspaceChecker_check wd
          then snd (getQuickPickItems (messages wd) (workspace_at_items wd) (gatherer_state s))
          else gatherer_state s)
     \<and> fst (gatherer_gather (gatherer (fst (commandlet_of wd2 (snd (forceAuthWebLogin wd s)))))
              (snd (commandlet_of wd2 (snd (forceAuthWebLogin wd s))))) =
         fst (gather (messages wd2) (workspace_at_items wd2) (workspace_at_choice wd2)
                (vscode_window wd2) (gatherer_state (snd (forceAuthWebLogin wd s))))
     \<and> snd (gather l w w2 win g) = snd (getQuickPickItems l w g)
     \<and> production (orgTypes (snd (getQuickPickItems l w g))) = production (orgTypes g)
     \<and> sandbox (orgTypes (snd (getQuickPickItems l w g))) = sandbox (orgTypes g)
     \<and> custom (orgTypes (snd (getQuickPickItems l w g))) = custom (orgTypes g)
     \<and> label (project (orgTypes (snd (getQuickPickItems l w g)))) = label (project (orgTypes g))
     \<and> (snd (getQuickPickItems l w g) = g
         \<or> (\<exists>url. getProjectUrl w = Inr (Some url) \<and> truthy url
              \<and> snd (getQuickPickItems l w g) =
                  g\<lparr>orgTypes := (orgTypes g)\<lparr>project := (project (orgTypes g))
                      \<lparr>detail := Some (l ''auth_project_detail'' @ '' ('' @ ToString url @
                                        '')'')\<rparr>\<rparr>\<rparr>))"
proof -
  note f = commandlet_of_fields
  note st = forceAuthWebLogin_state [where wd = wd and s = s]
  have fr: "production (orgTypes (snd (getQuickPickItems l w g))) = production (orgTypes g)"
    "sandbox (orgTypes (snd (getQuickPickItems l w g))) = sandbox (orgTypes g)"
    "custom (orgTypes (snd (getQuickPickItems l w g))) = custom (orgTypes g)"
    "label (project (orgTypes (snd (getQuickPickItems l w g)))) = label (project (orgTypes g))"
    using getQuickPickItems_frame [OF surjective_pairing, of l w g] by simp_all
  from assms st(2) have r: "next_ref s \<noteq> next_ref (snd (forceAuthWebLogin wd s))"
    "next_ref s \<noteq> workspaceChecker" "next_ref s \<noteq> parameterGatherer"
    "2 \<le> next_ref (snd (forceAuthWebLogin wd s))"
    by (simp_all add: workspaceChecker_def parameterGatherer_def)
  show ?thesis
    by (intro conjI) (simp_all only: f r st(1) fr gather_snd getQuickPickItems_snd fst_conv simp_thms)
qed

theorem module_state_shared_witness:
  "2 \<le> next_ref (load_module en)
   \<and> executor_ref (executor (fst (commandlet_of
        (project_world (cli_with (Inr ''{}'') (Inr ''org'') (Inr True))) (load_module en)))) = 2
   \<and> executor_ref (executor (fst (commandlet_of
        (project_world (cli_with (Inr ''{}'') (Inr ''org'') (Inr True)))
        (snd (forceAuthWebLogin
           (project_world (cli_with (Inr ''{}'') (Inr ''org'') (Inr True)))
           (load_module en)))))) \<noteq> 2
   \<and> detail (project (orgTypes (gatherer_state (snd (forceAuthWebLogin
        (project_world (cli_with (Inr ''{}'') (Inr ''org'') (Inr True)))
        (load_module en)))))) =
       Some ''auth_project_detail (https://my.testdomain.salesforce.com)''
   \<and> production (orgTypes (gatherer_state (snd (forceAuthWebLogin
        (project_world (cli_with (Inr ''{}'') (Inr ''org'') (Inr True)))
        (load_module en))))) = production (orgTypes (new_AuthParamsGatherer en))"
proof -
  let ?W = "project_world (cli_with (Inr ''{}'') (Inr ''org'') (Inr True))"
  let ?S = "load_module en"
  let ?g = "new_AuthParamsGatherer en"
  have s: "2 \<le> next_ref ?S" "next_ref ?S = 2" "gatherer_state ?S = ?g"
    by (simp_all add: load_module_def)
  have w: "SfdxWorkspaceChecker_check ?W" "messages ?W = en"
    "workspace_at_items ?W = project_workspace"
    by (simp_all add: project_world_def demo_world_def)
  have x: "executor_ref (executor (fst (commandlet_of ?W ?S))) = 2"
    by (simp add: commandlet_of_fields s)
  have d: "detail (project (orgTypes (snd (getQuickPickItems en project_workspace ?g)))) =
       Some ''auth_project_detail (https://my.testdomain.salesforce.com)''"
    by (simp add: getQuickPickItems_def project_workspace_url en_def Let_def)
  note t = module_state_shared [OF s(1), of ?W ?W en project_workspace _ _ ?g]
  from t x have 1: "executor_ref (executor (fst (commandlet_of ?W
      (snd (forceAuthWebLogin ?W ?S))))) \<noteq> 2"
    by metis
  from t w s(3) have st: "gatherer_state (snd (forceAuthWebLogin ?W ?S)) =
     snd (getQuickPickItems en project_workspace ?g)"
    by simp
  from t have "production (orgTypes (snd (getQuickPickItems en project_workspace ?g))) =
     production (orgTypes ?g)"
    by blast
  with st d s(1) x 1 show ?thesis by simp
qed

end
